theory Spec2Isabelle
  imports Complex_Main
begin

section \<open>Tax records of a CFDI 4.0 document\<close>

text \<open>
  The amounts of the source are \<^verbatim>\<open>decimal.Decimal\<close> values. They are modelled as
  rationals: sums, differences and products of decimals are exact in Python as long as
  the result fits the context precision of 28 significant digits, and so is a quotient
  that has a finite decimal expansion within that precision. The special values NaN and
  Infinity are no amounts and stay outside the model, and so does an \<^verbatim>\<open>int\<close> given where a
  decimal is expected: it behaves like the decimal of the same value, except under the one
  division of the source, where two integers would give a float.
\<close>

datatype error =
    IndexError          \<comment> \<open>\<^verbatim>\<open>parts[1]\<close> on a text without delimiter, \<^verbatim>\<open>comprobantes[0]\<close> on an empty sequence\<close>
  | AttributeError      \<comment> \<open>\<^verbatim>\<open>Impuesto.parse\<close> applied to a plain dict: it has no \<^verbatim>\<open>split\<close>\<close>
  | InvalidOperation    \<comment> \<open>\<^verbatim>\<open>Decimal(text)\<close> on a text that is no number; \<^verbatim>\<open>0 / 0\<close> on decimals\<close>
  | TypeError           \<comment> \<open>\<^verbatim>\<open>sum\<close> over a rate that is \<^verbatim>\<open>None\<close>\<close>
  | DivisionByZero      \<comment> \<open>decimal division of a non-zero value by zero\<close>
  | AmbiguousTaxBase    \<comment> \<open>the \<^verbatim>\<open>ValueError\<close> of the tax-inclusive branch of the constructor\<close>
  | Mismatch            \<comment> \<open>the \<^verbatim>\<open>ValueError\<close> of \<^verbatim>\<open>pago_comprobantes\<close> and \<^verbatim>\<open>pago_comprobante\<close>\<close>
  | UnknownCurrency     \<comment> \<open>\<^verbatim>\<open>rounder\<close> has no precision for the currency\<close>
  | CollaboratorError   \<comment> \<open>\<^verbatim>\<open>make_impuesto\<close> raised\<close>

record impuesto =
  Base :: "rat option"
  Impuesto :: string
  TipoFactor :: string
  TasaOCuota :: "rat option"
  Importe :: "rat option"

text \<open>The module-level dictionary \<^verbatim>\<open>_impuestos\<close>.\<close>

definition impuestos_dict :: "string \<rightharpoonup> string" where
  "impuestos_dict = map_of [(''ISR'', ''001''), (''IVA'', ''002''), (''IEPS'', ''003'')]"

text \<open>\<^verbatim>\<open>Impuesto.__init__\<close>; the kind is stored as \<^verbatim>\<open>_impuestos.get(impuesto, impuesto)\<close>.\<close>

definition Impuesto_init ::
  "string \<Rightarrow> string \<Rightarrow> rat option \<Rightarrow> rat option \<Rightarrow> rat option \<Rightarrow> impuesto" where
  "Impuesto_init impuesto tipo_factor tasa_o_cuota importe base =
     \<lparr>Base = base,
      Impuesto = (case impuestos_dict impuesto of Some code \<Rightarrow> code | None \<Rightarrow> impuesto),
      TipoFactor = tipo_factor,
      TasaOCuota = tasa_o_cuota,
      Importe = importe\<rparr>"

text \<open>
  \<^verbatim>\<open>str.split(sep)\<close> for a one-character separator: the pieces between the occurrences
  of the separator, always at least one piece.
\<close>

fun split_on :: "char \<Rightarrow> string \<Rightarrow> string list" where
  "split_on d [] = [[]]"
| "split_on d (c # cs) =
     (if c = d then [] # split_on d cs
      else (case split_on d cs of
              [] \<Rightarrow> [[c]]
            | p # ps \<Rightarrow> (c # p) # ps))"

text \<open>
  \<^verbatim>\<open>Impuesto.parse\<close>. The arguments of the constructor call are evaluated from left to
  right, so \<^verbatim>\<open>parts[1]\<close> fails before the rate is looked at. \<^verbatim>\<open>Decimal(text)\<close> is the
  parameter \<open>to_decimal\<close>; it answers \<open>None\<close> where Python raises.
\<close>

definition Impuesto_parse :: "(string \<Rightarrow> rat option) \<Rightarrow> string \<Rightarrow> error + impuesto" where
  "Impuesto_parse to_decimal text =
     (case split_on (CHR ''|'') text of
        p0 # p1 # rest \<Rightarrow>
          (case rest of
             [] \<Rightarrow> Inr (Impuesto_init p0 p1 None None None)
           | p2 # _ \<Rightarrow>
               (case to_decimal p2 of
                  None \<Rightarrow> Inl InvalidOperation
                | Some rate \<Rightarrow> Inr (Impuesto_init p0 p1 (Some rate) None None)))
      | _ \<Rightarrow> Inl IndexError)"

section \<open>Concepts and their taxes\<close>

text \<open>
  A tax of a concept is given as an \<^verbatim>\<open>Impuesto\<close> object, as a compact text, or (by the
  type annotation) as a plain dict. Only the first passes \<^verbatim>\<open>isinstance(x, Impuesto)\<close>;
  the other two are handed to \<^verbatim>\<open>Impuesto.parse\<close>.
\<close>

datatype tax_input = TaxObj impuesto | TaxStr string | TaxDict impuesto

fun as_impuesto :: "(string \<Rightarrow> rat option) \<Rightarrow> tax_input \<Rightarrow> error + impuesto" where
  "as_impuesto to_decimal (TaxObj i) = Inr i"
| "as_impuesto to_decimal (TaxStr text) = Impuesto_parse to_decimal text"
| "as_impuesto to_decimal (TaxDict d) = Inl AttributeError"

text \<open>A list comprehension whose element expression may raise: the first failure wins.\<close>

fun traverse :: "('a \<Rightarrow> error + 'b) \<Rightarrow> 'a list \<Rightarrow> error + 'b list" where
  "traverse f [] = Inr []"
| "traverse f (x # xs) =
     (case f x of
        Inl e \<Rightarrow> Inl e
      | Inr y \<Rightarrow> (case traverse f xs of Inl e \<Rightarrow> Inl e | Inr ys \<Rightarrow> Inr (y # ys)))"

text \<open>
  The concept as \<^verbatim>\<open>Concepto.__init__\<close> stores it. Of the keys that the constructor of
  the document only carries along, three are kept; the others behave the same.
\<close>

record concepto =
  ClaveProdServ :: string
  Cantidad :: rat
  ClaveUnidad :: string
  Descripcion :: string
  ValorUnitario :: rat
  ObjetoImp :: "string option"
  Descuento :: "rat option"
  Traslados :: "tax_input list"
  Retenciones :: "tax_input list"
  traslados_incluidos :: bool

text \<open>
  The value of the key \<^verbatim>\<open>Impuestos\<close> of a processed concept: a dict that has the key
  \<^verbatim>\<open>Traslados\<close> (\<^verbatim>\<open>Retenciones\<close>) only when the concept has such taxes.
\<close>

record concepto_impuestos =
  ci_Traslados :: "impuesto list option"
  ci_Retenciones :: "impuesto list option"

text \<open>The same dict after the loop of the constructor has updated it.\<close>

record concepto_calculado =
  cc_ClaveProdServ :: string
  cc_Cantidad :: rat
  cc_ClaveUnidad :: string
  cc_Descripcion :: string
  cc_ValorUnitario :: rat
  cc_Importe :: rat
  cc_ObjetoImp :: "string option"
  cc_Descuento :: "rat option"
  cc_Impuestos :: "concepto_impuestos option"

text \<open>
  \<^verbatim>\<open>sum(c["TasaOCuota"] for c in trasladados if c["TipoFactor"] == tipo_factor)\<close>:
  adding \<^verbatim>\<open>None\<close> raises.
\<close>

fun suma_tasa_o_cuota :: "string \<Rightarrow> impuesto list \<Rightarrow> error + rat" where
  "suma_tasa_o_cuota tipo_factor [] = Inr 0"
| "suma_tasa_o_cuota tipo_factor (c # cs) =
     (if TipoFactor c = tipo_factor then
        (case TasaOCuota c of
           None \<Rightarrow> Inl TypeError
         | Some rate \<Rightarrow>
             (case suma_tasa_o_cuota tipo_factor cs of
                Inl e \<Rightarrow> Inl e
              | Inr s \<Rightarrow> Inr (rate + s)))
      else suma_tasa_o_cuota tipo_factor cs)"

text \<open>The condition inside \<^verbatim>\<open>any(...)\<close> of the tax-inclusive branch.\<close>

definition lleva_base_o_importe :: "impuesto \<Rightarrow> bool" where
  "lleva_base_o_importe c \<longleftrightarrow>
     (TipoFactor c = ''Tasa'' \<or> TipoFactor c = ''Cuota'') \<and> (Base c \<noteq> None \<or> Importe c \<noteq> None)"

text \<open>
  The tax-inclusive branch up to the quotient: both sums are taken first, then the check,
  then \<^verbatim>\<open>(valor_unitario - s_cuota) / (s_tasa + 1)\<close>. Decimal division by zero raises.
\<close>

definition valor_sin_traslados :: "impuesto list \<Rightarrow> rat \<Rightarrow> error + rat" where
  "valor_sin_traslados trasladados valor_unitario =
     (case suma_tasa_o_cuota ''Tasa'' trasladados of
        Inl e \<Rightarrow> Inl e
      | Inr s_tasa \<Rightarrow>
          (case suma_tasa_o_cuota ''Cuota'' trasladados of
             Inl e \<Rightarrow> Inl e
           | Inr s_cuota \<Rightarrow>
               if list_ex lleva_base_o_importe trasladados then Inl AmbiguousTaxBase
               else if s_tasa + 1 = 0 then
                 Inl (if valor_unitario - s_cuota = 0 then InvalidOperation else DivisionByZero)
               else Inr ((valor_unitario - s_cuota) / (s_tasa + 1))))"

text \<open>
  The local \<^verbatim>\<open>valor_unitario\<close> after the \<^verbatim>\<open>if\<close> on \<^verbatim>\<open>_traslados_incluidos\<close>: the
  quotient as it is, not rounded, when the price includes the transferred taxes, the
  given unit price otherwise.
\<close>

definition valor_unitario_local :: "impuesto list \<Rightarrow> concepto \<Rightarrow> error + rat" where
  "valor_unitario_local trasladados c =
     (if traslados_incluidos c then valor_sin_traslados trasladados (ValorUnitario c)
      else Inr (ValorUnitario c))"

text \<open>\<^verbatim>\<open>concepto.get("Descuento") or 0\<close>.\<close>

definition or_zero :: "rat option \<Rightarrow> rat" where
  "or_zero v = (case v of None \<Rightarrow> 0 | Some d \<Rightarrow> d)"

text \<open>
  The local \<^verbatim>\<open>base\<close>: \<^verbatim>\<open>importe - (concepto.get("Descuento") or 0)\<close>, where
  \<^verbatim>\<open>importe\<close> is the product \<^verbatim>\<open>concepto["Cantidad"] * valor_unitario\<close> of the local
  unit price, before any rounding.
\<close>

definition base_de_impuestos :: "concepto \<Rightarrow> rat \<Rightarrow> rat" where
  "base_de_impuestos c valor_unitario = Cantidad c * valor_unitario - or_zero (Descuento c)"

text \<open>
  The dict comprehension over \<^verbatim>\<open>[('Traslados', trasladados), ('Retenciones', retenciones)]\<close>
  followed by \<^verbatim>\<open>impuestos or None\<close>. \<^verbatim>\<open>make_impuesto\<close> lives in a module that is not
  among the sources and is a parameter; it answers \<open>None\<close> where it raises.
\<close>

definition calcula_impuestos ::
  "(impuesto \<Rightarrow> rat \<Rightarrow> (rat \<Rightarrow> rat) \<Rightarrow> impuesto option) \<Rightarrow> (rat \<Rightarrow> rat) \<Rightarrow> rat \<Rightarrow>
   impuesto list \<Rightarrow> impuesto list \<Rightarrow> error + concepto_impuestos option" where
  "calcula_impuestos make_impuesto rnd_fn base trasladados retenciones =
     (let compute = (\<lambda>i. case make_impuesto i base rnd_fn of
                            None \<Rightarrow> Inl CollaboratorError
                          | Some t \<Rightarrow> Inr t)
      in case traverse compute trasladados of
           Inl e \<Rightarrow> Inl e
         | Inr ts \<Rightarrow>
             (case traverse compute retenciones of
                Inl e \<Rightarrow> Inl e
              | Inr rs \<Rightarrow>
                  Inr (if trasladados = [] \<and> retenciones = [] then None
                       else Some \<lparr>ci_Traslados = (if trasladados = [] then None else Some ts),
                                  ci_Retenciones = (if retenciones = [] then None else Some rs)\<rparr>)))"

text \<open>The body of the loop over the concepts in \<^verbatim>\<open>Comprobante.__init__\<close>.\<close>

definition procesa_concepto ::
  "(string \<Rightarrow> rat option) \<Rightarrow> (impuesto \<Rightarrow> rat \<Rightarrow> (rat \<Rightarrow> rat) \<Rightarrow> impuesto option) \<Rightarrow>
   (rat \<Rightarrow> rat) \<Rightarrow> concepto \<Rightarrow> error + concepto_calculado" where
  "procesa_concepto to_decimal make_impuesto rnd_fn c =
     (case traverse (as_impuesto to_decimal) (Traslados c) of
        Inl e \<Rightarrow> Inl e
      | Inr trasladados \<Rightarrow>
     (case traverse (as_impuesto to_decimal) (Retenciones c) of
        Inl e \<Rightarrow> Inl e
      | Inr retenciones \<Rightarrow>
     (case valor_unitario_local trasladados c of
        Inl e \<Rightarrow> Inl e
      | Inr valor_unitario \<Rightarrow>
          (let importe = Cantidad c * valor_unitario;
               c1 = \<lparr>cc_ClaveProdServ = ClaveProdServ c,
                     cc_Cantidad = Cantidad c,
                     cc_ClaveUnidad = ClaveUnidad c,
                     cc_Descripcion = Descripcion c,
                     cc_ValorUnitario =
                       (if traslados_incluidos c then rnd_fn valor_unitario else ValorUnitario c),
                     cc_Importe = rnd_fn importe,
                     cc_ObjetoImp = ObjetoImp c,
                     cc_Descuento = Descuento c,
                     cc_Impuestos = None\<rparr>
           in if ObjetoImp c = Some ''01'' \<or> ObjetoImp c = Some ''03'' then Inr c1
              else
                (case calcula_impuestos make_impuesto rnd_fn
                        (base_de_impuestos c valor_unitario) trasladados retenciones of
                   Inl e \<Rightarrow> Inl e
                 | Inr impuestos \<Rightarrow>
                     Inr (c1\<lparr>cc_Impuestos := impuestos,
                             cc_ObjetoImp :=
                               Some (if impuestos \<noteq> None then ''02'' else ''01'')\<rparr>))))))"

text \<open>All transferred (withheld) tax records of a list of processed concepts, in order.\<close>

definition traslados_de :: "concepto_calculado list \<Rightarrow> impuesto list" where
  "traslados_de cs =
     concat (map (\<lambda>c. case cc_Impuestos c of
                         None \<Rightarrow> []
                       | Some ci \<Rightarrow> (case ci_Traslados ci of None \<Rightarrow> [] | Some ts \<Rightarrow> ts)) cs)"

definition retenciones_de :: "concepto_calculado list \<Rightarrow> impuesto list" where
  "retenciones_de cs =
     concat (map (\<lambda>c. case cc_Impuestos c of
                         None \<Rightarrow> []
                       | Some ci \<Rightarrow> (case ci_Retenciones ci of None \<Rightarrow> [] | Some rs \<Rightarrow> rs)) cs)"

section \<open>The document\<close>

text \<open>The attributes of \<^verbatim>\<open>Issuer\<close> that the constructor reads; signing is left out.\<close>

record issuer =
  rfc :: string
  legal_name :: string
  tax_system :: string

record emisor_nodo =
  em_Rfc :: string
  em_Nombre :: string
  em_RegimenFiscal :: string

record receptor_nodo =
  re_Rfc :: string
  re_Nombre :: string
  re_DomicilioFiscalReceptor :: string
  re_RegimenFiscalReceptor :: "string option"
  re_UsoCFDI :: string

text \<open>
  What \<^verbatim>\<open>make_impuestos\<close> (not among the sources, a parameter) answers when its answer is
  truthy. The two totals are read with \<^verbatim>\<open>impuestos.get(key, 0)\<close>; a total that is absent
  is \<open>None\<close>.
\<close>

record impuestos_comprobante =
  TotalImpuestosRetenidos :: "rat option"
  TotalImpuestosTrasladados :: "rat option"
  im_Retenciones :: "impuesto list"
  im_Traslados :: "impuesto list"

text \<open>
  The arguments of \<^verbatim>\<open>Comprobante.__init__\<close>. \<^verbatim>\<open>iterate(conceptos)\<close> runs over one
  concept or over a sequence of them: a list here. The arguments that are stored as they
  come and read by nothing below (dates, exchange rate, confirmation, related documents,
  addenda) are left out, and so are certificate and seal.
\<close>

record 'p comprobante_args =
  arg_emisor :: issuer
  arg_lugar_expedicion :: string
  arg_receptor :: receptor_nodo
  arg_conceptos :: "concepto list"
  arg_moneda :: string
  arg_tipo_de_comprobante :: string
  arg_exportacion :: string
  arg_serie :: "string option"
  arg_folio :: "string option"
  arg_forma_pago :: "string option"
  arg_metodo_pago :: "string option"
  arg_complemento :: "'p option"

record 'p comprobante =
  cfdi_Version :: string
  cfdi_SubTotal :: rat
  cfdi_Moneda :: string
  cfdi_Total :: rat
  cfdi_TipoDeComprobante :: string
  cfdi_Exportacion :: string
  cfdi_LugarExpedicion :: string
  cfdi_Serie :: "string option"
  cfdi_Folio :: "string option"
  cfdi_FormaPago :: "string option"
  cfdi_Descuento :: "rat option"
  cfdi_MetodoPago :: "string option"
  cfdi_Emisor :: emisor_nodo
  cfdi_Receptor :: receptor_nodo
  cfdi_Conceptos :: "concepto_calculado list"
  cfdi_Impuestos :: "impuestos_comprobante option"
  cfdi_Complemento :: "'p option"

text \<open>
  \<^verbatim>\<open>Comprobante.__init__\<close>. \<^verbatim>\<open>rounder\<close> (not among the sources) is a parameter: it
  answers the rounding function of a currency, or \<open>None\<close> for a currency it does not know.
\<close>

definition Comprobante_init ::
  "(string \<Rightarrow> rat option) \<Rightarrow> (string \<Rightarrow> (rat \<Rightarrow> rat) option) \<Rightarrow>
   (impuesto \<Rightarrow> rat \<Rightarrow> (rat \<Rightarrow> rat) \<Rightarrow> impuesto option) \<Rightarrow>
   (concepto_calculado list \<Rightarrow> impuestos_comprobante option) \<Rightarrow>
   'p comprobante_args \<Rightarrow> error + 'p comprobante" where
  "Comprobante_init to_decimal rounder make_impuesto make_impuestos a =
     (case rounder (arg_moneda a) of
        None \<Rightarrow> Inl UnknownCurrency
      | Some rnd_fn \<Rightarrow>
          (case traverse (procesa_concepto to_decimal make_impuesto rnd_fn) (arg_conceptos a) of
             Inl e \<Rightarrow> Inl e
           | Inr cs \<Rightarrow>
               (let sub_total = sum_list (map cc_Importe cs);
                    descuento = sum_list (map (\<lambda>c. or_zero (cc_Descuento c)) cs);
                    impuestos = make_impuestos cs;
                    total = sub_total - descuento;
                    total = (case impuestos of
                               None \<Rightarrow> total
                             | Some i \<Rightarrow>
                                 total + or_zero (TotalImpuestosTrasladados i)
                                       - or_zero (TotalImpuestosRetenidos i))
                in Inr \<lparr>cfdi_Version = ''4.0'',
                        cfdi_SubTotal = sub_total,
                        cfdi_Moneda = arg_moneda a,
                        cfdi_Total = total,
                        cfdi_TipoDeComprobante = arg_tipo_de_comprobante a,
                        cfdi_Exportacion = arg_exportacion a,
                        cfdi_LugarExpedicion = arg_lugar_expedicion a,
                        cfdi_Serie = arg_serie a,
                        cfdi_Folio = arg_folio a,
                        cfdi_FormaPago = arg_forma_pago a,
                        cfdi_Descuento = (if descuento = 0 then None else Some descuento),
                        cfdi_MetodoPago = arg_metodo_pago a,
                        cfdi_Emisor = \<lparr>em_Rfc = rfc (arg_emisor a),
                                        em_Nombre = legal_name (arg_emisor a),
                                        em_RegimenFiscal = tax_system (arg_emisor a)\<rparr>,
                        cfdi_Receptor = arg_receptor a,
                        cfdi_Conceptos = cs,
                        cfdi_Impuestos = impuestos,
                        cfdi_Complemento = arg_complemento a\<rparr>)))"

section \<open>Collaborators described by the specification only\<close>

text \<open>
  Modelled from the spec: \<^verbatim>\<open>rounder\<close> of the module \<^verbatim>\<open>compute\<close>, which is not among
  the sources. "Currency/rounding table (external config): maps a currency code to a
  decimal rounding precision; the core fails with UnknownCurrency if a document specifies
  a currency absent from this table." Rounding is to the nearest multiple of \<open>10\<^sup>-\<^sup>d\<close>;
  the inputs used below are never half-way between two multiples, where rounding modes
  differ.
\<close>

definition redondea :: "nat \<Rightarrow> rat \<Rightarrow> rat" where
  "redondea d x = of_int (round (x * 10 ^ d)) / 10 ^ d"

text \<open>
  Modelled from the spec: \<^verbatim>\<open>rounder\<close> over a given currency table; a currency that the
  table does not have is the failure "UnknownCurrency".
\<close>

definition rounder_spec :: "(string \<rightharpoonup> nat) \<Rightarrow> string \<Rightarrow> (rat \<Rightarrow> rat) option" where
  "rounder_spec tabla m = map_option redondea (tabla m)"

text \<open>
  Modelled from the spec: \<^verbatim>\<open>make_impuesto\<close> of the module \<^verbatim>\<open>compute\<close>, which is not
  among the sources. "compute(base, rounding) -> TaxRecord returns a new record with base
  and amount filled in according to the factor-type rule", that is "amount = round(base *
  rate)" and "Exempt records never carry rate or amount"; it "fails with AmbiguousTaxBase
  if base/amount are already set".
\<close>

definition make_impuesto_spec :: "impuesto \<Rightarrow> rat \<Rightarrow> (rat \<Rightarrow> rat) \<Rightarrow> impuesto option" where
  "make_impuesto_spec i base rnd_fn =
     (if Base i \<noteq> None \<or> Importe i \<noteq> None then None
      else if TipoFactor i = ''Exento'' then Some (i\<lparr>Base := Some base\<rparr>)
      else (case TasaOCuota i of
              None \<Rightarrow> None
            | Some rate \<Rightarrow> Some (i\<lparr>Base := Some base, Importe := Some (rnd_fn (base * rate))\<rparr>)))"

text \<open>
  Modelled from the spec: the grouping of \<^verbatim>\<open>make_impuestos\<close> and the proration of
  \<^verbatim>\<open>make_impuestos_dr_parcial\<close>, both of the module \<^verbatim>\<open>compute\<close>, which is not among
  the sources. "Group every concept-level TaxRecord across the whole concept list by
  (kind, factor, rate); sum base and amount within each group", with "Exempt grouped by
  kind alone, without rate/amount". "Compute a per-group prorated tax contribution as
  round(group_amount_on_original_document * paid_now / total_of_original_document); the
  grouping key set mirrors the original document's groups; Exempt groups carry only a
  prorated base, never an amount." The groups keep the order of their first record.
\<close>

record grupo =
  gr_Impuesto :: string
  gr_TipoFactor :: string
  gr_TasaOCuota :: "rat option"
  gr_Base :: rat
  gr_Importe :: rat

text \<open>
  Modelled from the spec: the key of a group, "(kind, factor, rate)", with "Exempt grouped
  by kind alone".
\<close>

definition misma_clave :: "impuesto \<Rightarrow> grupo \<Rightarrow> bool" where
  "misma_clave i g \<longleftrightarrow>
     Impuesto i = gr_Impuesto g \<and> TipoFactor i = gr_TipoFactor g \<and>
     (TipoFactor i = ''Exento'' \<or> TasaOCuota i = gr_TasaOCuota g)"

text \<open>
  Modelled from the spec: one tax record enters its group, "sum base and amount within
  each group", or opens a new group at the end.
\<close>

fun acumula :: "impuesto \<Rightarrow> grupo list \<Rightarrow> grupo list" where
  "acumula i [] =
     [\<lparr>gr_Impuesto = Impuesto i,
       gr_TipoFactor = TipoFactor i,
       gr_TasaOCuota = (if TipoFactor i = ''Exento'' then None else TasaOCuota i),
       gr_Base = or_zero (Base i),
       gr_Importe = or_zero (Importe i)\<rparr>]"
| "acumula i (g # gs) =
     (if misma_clave i g then
        g\<lparr>gr_Base := gr_Base g + or_zero (Base i),
          gr_Importe := gr_Importe g + or_zero (Importe i)\<rparr> # gs
      else g # acumula i gs)"

text \<open>
  Modelled from the spec: "group every concept-level TaxRecord across the whole concept
  list".
\<close>

definition agrupa :: "impuesto list \<Rightarrow> grupo list" where
  "agrupa impuestos = foldl (\<lambda>gs i. acumula i gs) [] impuestos"

text \<open>
  Modelled from the spec: the prorated tax lines of a related document, as the complement
  of the repository's test data shows them (\<^verbatim>\<open>BaseDR\<close>, \<^verbatim>\<open>ImpuestoDR\<close>, \<^verbatim>\<open>TipoFactorDR\<close>,
  \<^verbatim>\<open>TasaOCuotaDR\<close>, \<^verbatim>\<open>ImporteDR\<close>).
\<close>

record impuesto_dr =
  BaseDR :: rat
  ImpuestoDR :: string
  TipoFactorDR :: string
  TasaOCuotaDR :: "rat option"
  ImporteDR :: "rat option"

text \<open>
  Modelled from the spec: the two lists of prorated tax lines, withheld and transferred.
\<close>

record impuestos_dr =
  RetencionesDR :: "impuesto_dr list"
  TrasladosDR :: "impuesto_dr list"

text \<open>
  Modelled from the spec: the contribution of one group,
  "round(group_amount_on_original_document * paid_now / total_of_original_document)";
  "Exempt groups carry only a prorated base, never an amount".
\<close>

definition prorratea :: "(rat \<Rightarrow> rat) \<Rightarrow> rat \<Rightarrow> rat \<Rightarrow> grupo \<Rightarrow> impuesto_dr" where
  "prorratea rnd_fn imp_pagado total_original g =
     \<lparr>BaseDR = rnd_fn (gr_Base g * imp_pagado / total_original),
      ImpuestoDR = gr_Impuesto g,
      TipoFactorDR = gr_TipoFactor g,
      TasaOCuotaDR = gr_TasaOCuota g,
      ImporteDR = (if gr_TipoFactor g = ''Exento'' then None
                   else Some (rnd_fn (gr_Importe g * imp_pagado / total_original)))\<rparr>"

text \<open>
  Modelled from the spec: \<^verbatim>\<open>make_impuestos_dr_parcial\<close> of the module \<^verbatim>\<open>compute\<close>, which
  is not among the sources, with the parameters of its call in \<^verbatim>\<open>pago_comprobante\<close>. "The
  grouping key set mirrors the original document's groups." A total of zero has no
  quotient: decimal division by zero raises.
\<close>

definition make_impuestos_dr_parcial ::
  "concepto_calculado list \<Rightarrow> rat \<Rightarrow> rat \<Rightarrow> rat \<Rightarrow> (rat \<Rightarrow> rat) \<Rightarrow> error + impuestos_dr" where
  "make_impuestos_dr_parcial cs imp_saldo_ant imp_pagado total_original rnd_fn =
     (if total_original = 0 then Inl DivisionByZero
      else Inr \<lparr>RetencionesDR = map (prorratea rnd_fn imp_pagado total_original) (agrupa (retenciones_de cs)),
                TrasladosDR = map (prorratea rnd_fn imp_pagado total_original) (agrupa (traslados_de cs))\<rparr>)"

text \<open>
  Modelled from the spec: a group as a tax line of the document, for \<^verbatim>\<open>make_impuestos\<close> of
  the module \<^verbatim>\<open>compute\<close>, which is not among the sources. "Exempt records never carry
  rate or amount"; a document without any tax record carries no taxes.
\<close>

definition impuesto_de_grupo :: "grupo \<Rightarrow> impuesto" where
  "impuesto_de_grupo g =
     \<lparr>Base = Some (gr_Base g),
      Impuesto = gr_Impuesto g,
      TipoFactor = gr_TipoFactor g,
      TasaOCuota = gr_TasaOCuota g,
      Importe = (if gr_TipoFactor g = ''Exento'' then None else Some (gr_Importe g))\<rparr>"

text \<open>
  Modelled from the spec: \<^verbatim>\<open>make_impuestos\<close>, the groups of the document and "total_transferred
  and total_withheld as the sum of all group amounts".
\<close>

definition make_impuestos_spec :: "concepto_calculado list \<Rightarrow> impuestos_comprobante option" where
  "make_impuestos_spec cs =
     (let ts = agrupa (traslados_de cs);
          rs = agrupa (retenciones_de cs)
      in if ts = [] \<and> rs = [] then None
         else Some \<lparr>TotalImpuestosRetenidos =
                      (if rs = [] then None else Some (sum_list (map gr_Importe rs))),
                    TotalImpuestosTrasladados =
                      (if ts = [] then None else Some (sum_list (map gr_Importe ts))),
                    im_Retenciones = map impuesto_de_grupo rs,
                    im_Traslados = map impuesto_de_grupo ts\<rparr>)"

section \<open>Payment documents\<close>

record 'i docto_relacionado =
  IdDocumento :: string
  dr_Serie :: "string option"
  dr_Folio :: "string option"
  MonedaDR :: string
  EquivalenciaDR :: rat
  MetodoDePagoDR :: string
  NumParcialidad :: int
  ImpSaldoAnt :: rat
  ImpPagado :: rat
  ObjetoImpDR :: string
  ImpuestosDR :: "'i option"

record 'i pago_nodo =
  DoctoRelacionado :: "'i docto_relacionado list"
  FechaPago :: string
  FormaDePagoP :: string
  MonedaP :: string
  TipoCambioP :: "rat option"

text \<open>
  A stamped source document as \<^verbatim>\<open>pago_comprobante\<close> and \<^verbatim>\<open>pago_comprobantes\<close> read it.
  A key read as \<^verbatim>\<open>c[key]\<close> is a field, a key read as \<^verbatim>\<open>c.get(key)\<close> an optional field;
  \<open>o_UUID\<close> is \<^verbatim>\<open>c["Complemento"]["TimbreFiscalDigital"]["UUID"]\<close> and \<open>o_con_Impuestos\<close>
  is the test \<^verbatim>\<open>'Impuestos' in c\<close>.
\<close>

record cfdi_origen =
  o_Moneda :: string
  o_Emisor :: emisor_nodo
  o_Receptor :: receptor_nodo
  o_UUID :: string
  o_Serie :: "string option"
  o_Folio :: "string option"
  o_MetodoPago :: string
  o_Total :: rat
  o_con_Impuestos :: bool
  o_Conceptos :: "concepto_calculado list"

text \<open>
  \<^verbatim>\<open>Comprobante.pago\<close> for version 4.0: the receiver's use becomes \<^verbatim>\<open>CP01\<close> and the
  document has the one fixed concept, currency \<^verbatim>\<open>XXX\<close> and type \<^verbatim>\<open>P\<close>.
\<close>

definition pago ::
  "(string \<Rightarrow> rat option) \<Rightarrow> (string \<Rightarrow> (rat \<Rightarrow> rat) option) \<Rightarrow>
   (impuesto \<Rightarrow> rat \<Rightarrow> (rat \<Rightarrow> rat) \<Rightarrow> impuesto option) \<Rightarrow>
   (concepto_calculado list \<Rightarrow> impuestos_comprobante option) \<Rightarrow>
   issuer \<Rightarrow> string \<Rightarrow> receptor_nodo \<Rightarrow> 'p \<Rightarrow> string option \<Rightarrow> string option \<Rightarrow>
   error + 'p comprobante" where
  "pago to_decimal rounder make_impuesto make_impuestos emisor lugar_expedicion receptor
        complemento_pago serie folio =
     Comprobante_init to_decimal rounder make_impuesto make_impuestos
       \<lparr>arg_emisor = emisor,
        arg_lugar_expedicion = lugar_expedicion,
        arg_receptor = receptor\<lparr>re_UsoCFDI := ''CP01''\<rparr>,
        arg_conceptos =
          [\<lparr>ClaveProdServ = ''84111506'', Cantidad = 1, ClaveUnidad = ''ACT'',
            Descripcion = ''Pago'', ValorUnitario = 0, ObjetoImp = Some ''01'',
            Descuento = None, Traslados = [], Retenciones = [],
            traslados_incluidos = False\<rparr>],
        arg_moneda = ''XXX'',
        arg_tipo_de_comprobante = ''P'',
        arg_exportacion = ''01'',
        arg_serie = serie,
        arg_folio = folio,
        arg_forma_pago = None,
        arg_metodo_pago = None,
        arg_complemento = Some complemento_pago\<rparr>"

text \<open>
  The adjustment of \<^verbatim>\<open>tipo_cambio\<close> (rule CRP204); \<open>version\<close> is
  \<^verbatim>\<open>cls.complemento_pago.version\<close>, an attribute of a class that is not among the sources.
\<close>

definition tipo_cambio_pago :: "string \<Rightarrow> string \<Rightarrow> rat option \<Rightarrow> rat option" where
  "tipo_cambio_pago version moneda tipo_cambio =
     (if version = ''1.0'' then
        (if moneda = ''MXN'' \<and> tipo_cambio = Some 1 then None else tipo_cambio)
      else
        (if moneda = ''MXN'' \<and> tipo_cambio = None then Some 1 else tipo_cambio))"




text \<open>
  \<^verbatim>\<open>Comprobante.pago_comprobante\<close>. The arguments of \<^verbatim>\<open>make_impuestos_dr_parcial\<close> are
  evaluated before the call, \<^verbatim>\<open>rounder(c["Moneda"])\<close> among them.
\<close>

definition pago_comprobante ::
  "(string \<Rightarrow> rat option) \<Rightarrow> (string \<Rightarrow> (rat \<Rightarrow> rat) option) \<Rightarrow>
   (impuesto \<Rightarrow> rat \<Rightarrow> (rat \<Rightarrow> rat) \<Rightarrow> impuesto option) \<Rightarrow>
   (concepto_calculado list \<Rightarrow> impuestos_comprobante option) \<Rightarrow>
   (impuestos_dr pago_nodo list \<Rightarrow> 'p) \<Rightarrow> string \<Rightarrow>
   issuer \<Rightarrow> string \<Rightarrow> cfdi_origen \<Rightarrow> int \<Rightarrow> rat \<Rightarrow> rat \<Rightarrow> string \<Rightarrow> string \<Rightarrow>
   rat option \<Rightarrow> string option \<Rightarrow> string option \<Rightarrow> error + 'p comprobante" where
  "pago_comprobante to_decimal rounder make_impuesto make_impuestos complemento_pago version
        emisor lugar_expedicion comprobante num_parcialidad imp_saldo_ant imp_pagado
        fecha_pago forma_pago tipo_cambio serie folio =
     (let first_cfdi = comprobante;
          moneda = o_Moneda first_cfdi;
          receptor = o_Receptor first_cfdi;
          tipo_cambio = tipo_cambio_pago version moneda tipo_cambio;
          c = comprobante
      in if \<not> (o_Moneda c = moneda) then Inl Mismatch
         else
           (case (if o_con_Impuestos c then
                    (case rounder (o_Moneda c) of
                       None \<Rightarrow> Inl UnknownCurrency
                     | Some rnd_fn \<Rightarrow>
                         (case make_impuestos_dr_parcial (o_Conceptos c) imp_saldo_ant
                                 imp_pagado (o_Total c) rnd_fn of
                            Inl e \<Rightarrow> Inl e
                          | Inr dr \<Rightarrow> Inr (Some dr)))
                  else Inr None) of
              Inl e \<Rightarrow> Inl e
            | Inr impuestos \<Rightarrow>
                pago to_decimal rounder make_impuesto make_impuestos emisor lugar_expedicion
                  receptor
                  (complemento_pago
                     [\<lparr>DoctoRelacionado =
                         [\<lparr>IdDocumento = o_UUID c,
                           dr_Serie = o_Serie c,
                           dr_Folio = o_Folio c,
                           MonedaDR = o_Moneda c,
                           EquivalenciaDR = 1,
                           MetodoDePagoDR = o_MetodoPago c,
                           NumParcialidad = num_parcialidad,
                           ImpSaldoAnt = imp_saldo_ant,
                           ImpPagado = imp_pagado,
                           ObjetoImpDR = (if o_con_Impuestos c then ''02'' else ''01''),
                           ImpuestosDR = impuestos\<rparr>],
                       FechaPago = fecha_pago,
                       FormaDePagoP = forma_pago,
                       MonedaP = moneda,
                       TipoCambioP = tipo_cambio\<rparr>])
                  serie folio))"

section \<open>The round trip of the tax-inclusive price\<close>

text \<open>
  The price with its transferred taxes, as the quotient of the tax-inclusive branch
  presupposes it: the unit price, plus the unit price times the sum of the rates, plus the
  sum of the fees. The source has no such function; it is the left inverse of
  \<^verbatim>\<open>(valor_unitario - s_cuota) / (s_tasa + 1)\<close> that the round-trip law speaks of.
\<close>

definition precio_con_traslados :: "rat \<Rightarrow> rat \<Rightarrow> rat \<Rightarrow> rat" where
  "precio_con_traslados valor_unitario s_tasa s_cuota =
     valor_unitario + valor_unitario * s_tasa + s_cuota"

section \<open>Example data\<close>

definition emisor_ejemplo :: issuer where
  "emisor_ejemplo =
     \<lparr>rfc = ''H&E951128469'', legal_name = ''HERRERIA & ELECTRICOS'', tax_system = ''606''\<rparr>"

definition receptor_ejemplo :: receptor_nodo where
  "receptor_ejemplo =
     \<lparr>re_Rfc = ''KIJ0906199R1'', re_Nombre = ''KIJ, S.A DE C.V.'',
      re_DomicilioFiscalReceptor = ''59820'', re_RegimenFiscalReceptor = Some ''601'',
      re_UsoCFDI = ''G03''\<rparr>"

definition tabla_ejemplo :: "string \<rightharpoonup> nat" where
  "tabla_ejemplo = map_of [(''MXN'', 2), (''USD'', 2), (''XXX'', 0)]"

text \<open>Two units at 100.00 with a discount of 10.00, 16 % transferred and 10 % withheld.\<close>

definition concepto_con_impuestos :: concepto where
  "concepto_con_impuestos =
     \<lparr>ClaveProdServ = ''84111506'', Cantidad = 2, ClaveUnidad = ''E48'',
      Descripcion = ''Servicio'', ValorUnitario = 100, ObjetoImp = None,
      Descuento = Some 10,
      Traslados = [TaxObj (Impuesto_init ''IVA'' ''Tasa'' (Some (4 / 25)) None None)],
      Retenciones = [TaxObj (Impuesto_init ''ISR'' ''Tasa'' (Some (1 / 10)) None None)],
      traslados_incluidos = False\<rparr>"

text \<open>One unit at 50.00, declared not subject to tax.\<close>

definition concepto_sin_impuestos :: concepto where
  "concepto_sin_impuestos =
     \<lparr>ClaveProdServ = ''01010101'', Cantidad = 1, ClaveUnidad = ''H87'',
      Descripcion = ''Pieza'', ValorUnitario = 50, ObjetoImp = Some ''01'',
      Descuento = None, Traslados = [], Retenciones = [],
      traslados_incluidos = False\<rparr>"

text \<open>A hundred units at 10.03, a price that includes a transferred tax of 25 %.\<close>

definition concepto_precio_incluido :: concepto where
  "concepto_precio_incluido =
     \<lparr>ClaveProdServ = ''50202306'', Cantidad = 100, ClaveUnidad = ''H87'',
      Descripcion = ''Bebida'', ValorUnitario = 1003 / 100, ObjetoImp = None,
      Descuento = None,
      Traslados = [TaxObj (Impuesto_init ''IEPS'' ''Tasa'' (Some (1 / 4)) None None)],
      Retenciones = [], traslados_incluidos = True\<rparr>"

text \<open>Three units at 0.333 with 16 % transferred: the product 0.999 is no amount in cents.\<close>

definition concepto_fraccion :: concepto where
  "concepto_fraccion =
     \<lparr>ClaveProdServ = ''01010101'', Cantidad = 3, ClaveUnidad = ''KGM'',
      Descripcion = ''Granel'', ValorUnitario = 333 / 1000, ObjetoImp = None,
      Descuento = None,
      Traslados = [TaxObj (Impuesto_init ''IVA'' ''Tasa'' (Some (4 / 25)) None None)],
      Retenciones = [], traslados_incluidos = False\<rparr>"

text \<open>
  One unit at 0.118, a price that includes a transferred tax at the rate 1.600000 of the
  test data.
\<close>

definition concepto_tasa_alta :: concepto where
  "concepto_tasa_alta =
     \<lparr>ClaveProdServ = ''01010101'', Cantidad = 1, ClaveUnidad = ''H87'',
      Descripcion = ''Pieza'', ValorUnitario = 118 / 1000, ObjetoImp = None,
      Descuento = None,
      Traslados = [TaxObj (Impuesto_init ''IVA'' ''Tasa'' (Some (8 / 5)) None None)],
      Retenciones = [], traslados_incluidos = True\<rparr>"

text \<open>A tax-inclusive concept whose transferred tax already carries a base.\<close>

definition concepto_ambiguo :: concepto where
  "concepto_ambiguo =
     \<lparr>ClaveProdServ = ''01010101'', Cantidad = 1, ClaveUnidad = ''H87'',
      Descripcion = ''Pieza'', ValorUnitario = 116, ObjetoImp = None,
      Descuento = None,
      Traslados = [TaxObj (Impuesto_init ''IVA'' ''Tasa'' (Some (4 / 25)) None (Some 100))],
      Retenciones = [], traslados_incluidos = True\<rparr>"

text \<open>A stamped source document without taxes, of the issuer and the receiver above.\<close>

definition cfdi_origen_ejemplo :: "string \<Rightarrow> string \<Rightarrow> rat \<Rightarrow> cfdi_origen" where
  "cfdi_origen_ejemplo uuid mon importe_total =
     \<lparr>o_Moneda = mon,
      o_Emisor = \<lparr>em_Rfc = ''H&E951128469'', em_Nombre = ''HERRERIA & ELECTRICOS'',
                  em_RegimenFiscal = ''606''\<rparr>,
      o_Receptor = receptor_ejemplo,
      o_UUID = uuid,
      o_Serie = Some ''A'',
      o_Folio = None,
      o_MetodoPago = ''PPD'',
      o_Total = importe_total,
      o_con_Impuestos = False,
      o_Conceptos = []\<rparr>"

text \<open>
  A stamped source document with total 251.40 whose one concept carries 30.40 of
  transferred and 19.00 of withheld tax.
\<close>

definition cfdi_origen_con_impuestos :: cfdi_origen where
  "cfdi_origen_con_impuestos =
     (cfdi_origen_ejemplo ''6d7434a6'' ''MXN'' (1257 / 5))
       \<lparr>o_con_Impuestos := True,
        o_Conceptos :=
          [\<lparr>cc_ClaveProdServ = ''84111506'', cc_Cantidad = 2, cc_ClaveUnidad = ''E48'',
            cc_Descripcion = ''Servicio'', cc_ValorUnitario = 100, cc_Importe = 200,
            cc_ObjetoImp = Some ''02'', cc_Descuento = Some 10,
            cc_Impuestos =
              Some \<lparr>ci_Traslados =
                      Some [\<lparr>Base = Some 190, Impuesto = ''002'', TipoFactor = ''Tasa'',
                             TasaOCuota = Some (4 / 25), Importe = Some (152 / 5)\<rparr>],
                    ci_Retenciones =
                      Some [\<lparr>Base = Some 190, Impuesto = ''001'', TipoFactor = ''Tasa'',
                             TasaOCuota = Some (1 / 10), Importe = Some 19\<rparr>]\<rparr>\<rparr>]\<rparr>"

text \<open>
  A stamped source document in MXN whose transferred tax has the amount 30.4032, with the
  six decimals that a tax amount of a concept may have.
\<close>

definition cfdi_origen_seis_decimales :: cfdi_origen where
  "cfdi_origen_seis_decimales =
     (cfdi_origen_ejemplo ''6d7434a6'' ''MXN'' (22042 / 100))
       \<lparr>o_con_Impuestos := True,
        o_Conceptos :=
          [\<lparr>cc_ClaveProdServ = ''84111506'', cc_Cantidad = 1, cc_ClaveUnidad = ''E48'',
            cc_Descripcion = ''Servicio'', cc_ValorUnitario = 19002 / 100,
            cc_Importe = 19002 / 100, cc_ObjetoImp = Some ''02'', cc_Descuento = None,
            cc_Impuestos =
              Some \<lparr>ci_Traslados =
                      Some [\<lparr>Base = Some (19002 / 100), Impuesto = ''002'',
                             TipoFactor = ''Tasa'', TasaOCuota = Some (4 / 25),
                             Importe = Some (304032 / 10000)\<rparr>],
                    ci_Retenciones = None\<rparr>\<rparr>]\<rparr>"

text \<open>What \<^verbatim>\<open>Decimal(text)\<close> answers on the rate texts of the examples.\<close>

definition decimal_ejemplo :: "string \<Rightarrow> rat option" where
  "decimal_ejemplo text =
     (if text = ''0.16'' then Some (4 / 25)
      else if text = ''0.160000'' then Some (4 / 25)
      else if text = ''1.600000'' then Some (8 / 5)
      else None)"

definition args_ejemplo :: "concepto list \<Rightarrow> unit comprobante_args" where
  "args_ejemplo cs =
     \<lparr>arg_emisor = emisor_ejemplo, arg_lugar_expedicion = ''56820'',
      arg_receptor = receptor_ejemplo, arg_conceptos = cs, arg_moneda = ''MXN'',
      arg_tipo_de_comprobante = ''I'', arg_exportacion = ''01'', arg_serie = Some ''A'',
      arg_folio = Some ''123456'', arg_forma_pago = Some ''03'', arg_metodo_pago = Some ''PUE'',
      arg_complemento = None\<rparr>"

section \<open>Splitting a text\<close>

lemma split_on_not_Nil: "split_on d s \<noteq> []"
  by (induction s) (auto split: list.splits)

lemma split_on_no_delim: "d \<notin> set s \<Longrightarrow> split_on d s = [s]"
  by (induction s) auto

lemma split_on_append: "d \<notin> set k \<Longrightarrow> split_on d (k @ d # rest) = k # split_on d rest"
  by (induction k) auto

lemma split_on_length: "length (split_on d s) = Suc (count_list s d)"
  by (induction s) (auto split: list.splits simp: split_on_not_Nil)

lemma split_on_single_iff: "(\<exists>p. split_on d s = [p]) \<longleftrightarrow> d \<notin> set s"
proof
  assume "\<exists>p. split_on d s = [p]"
  then have "length (split_on d s) = 1" by auto
  then have "count_list s d = 0" by (simp add: split_on_length)
  then show "d \<notin> set s" by (simp add: count_list_0_iff)
next
  assume "d \<notin> set s" then show "\<exists>p. split_on d s = [p]" by (simp add: split_on_no_delim)
qed

section \<open>Sequences of fallible steps\<close>

lemma traverse_list_all2:
  "traverse f xs = Inr ys \<Longrightarrow> list_all2 (\<lambda>x y. f x = Inr y) xs ys"
  by (induction xs arbitrary: ys) (auto split: sum.splits)




lemma procesa_concepto_Inr:
  assumes "procesa_concepto td mk rnd c = Inr k"
  shows "\<exists>tras rets v.
           traverse (as_impuesto td) (Traslados c) = Inr tras \<and>
           traverse (as_impuesto td) (Retenciones c) = Inr rets \<and>
           valor_unitario_local tras c = Inr v \<and>
           cc_Cantidad k = Cantidad c \<and>
           cc_Descuento k = Descuento c \<and>
           cc_ValorUnitario k = (if traslados_incluidos c then rnd v else ValorUnitario c) \<and>
           cc_Importe k = rnd (Cantidad c * v) \<and>
           (if ObjetoImp c = Some ''01'' \<or> ObjetoImp c = Some ''03'' then cc_Impuestos k = None
            else calcula_impuestos mk rnd (base_de_impuestos c v) tras rets = Inr (cc_Impuestos k))"
  using assms unfolding procesa_concepto_def
  by (auto simp: Let_def split: sum.splits if_splits)

lemma valor_sin_traslados_Inr:
  assumes "valor_sin_traslados tras p = Inr v"
  shows "\<exists>s_tasa s_cuota.
           suma_tasa_o_cuota ''Tasa'' tras = Inr s_tasa \<and>
           suma_tasa_o_cuota ''Cuota'' tras = Inr s_cuota \<and>
           \<not> list_ex lleva_base_o_importe tras \<and> s_tasa + 1 \<noteq> 0 \<and>
           v = (p - s_cuota) / (s_tasa + 1)"
  using assms unfolding valor_sin_traslados_def
  by (auto split: sum.splits if_splits)





lemma Comprobante_init_Inr:
  assumes "Comprobante_init td rounder mk mk_imps a = Inr d"
  shows "\<exists>rnd. rounder (arg_moneda a) = Some rnd \<and>
           traverse (procesa_concepto td mk rnd) (arg_conceptos a) = Inr (cfdi_Conceptos d)"
  using assms unfolding Comprobante_init_def
  by (auto simp: Let_def split: option.splits sum.splits)

lemma sum_descuentos:
  "list_all2 (\<lambda>c k. cc_Descuento k = Descuento c) cs ks \<Longrightarrow>
   sum_list (map (\<lambda>k. or_zero (cc_Descuento k)) ks) = sum_list (map (\<lambda>c. or_zero (Descuento c)) cs)"
  by (induction rule: list_all2_induct) auto

lemma conceptos_descuento:
  assumes "traverse (procesa_concepto td mk rnd) cs = Inr ks"
  shows "list_all2 (\<lambda>c k. cc_Descuento k = Descuento c) cs ks"
  using traverse_list_all2[OF assms]
  by (rule list_all2_mono) (auto dest: procesa_concepto_Inr)

section \<open>Evaluating the rounding of the examples\<close>

lemma floor_rat_numeral: "\<lfloor>(numeral a / numeral b :: rat)\<rfloor> = numeral a div numeral b"
  using floor_divide_of_int_eq[of "numeral a" "numeral b", where ?'a = rat] by simp

lemma floor_rat_neg_numeral:
  "\<lfloor>(- (numeral a / numeral b) :: rat)\<rfloor> = - numeral a div numeral b"
  using floor_divide_of_int_eq[of "- numeral a" "numeral b", where ?'a = rat] by simp

lemma floor_rat_one_numeral: "\<lfloor>(1 / numeral b :: rat)\<rfloor> = 1 div numeral b"
  using floor_divide_of_int_eq[of 1 "numeral b", where ?'a = rat] by simp

lemmas redondea_simps =
  redondea_def round_def floor_rat_numeral floor_rat_neg_numeral floor_rat_one_numeral

section \<open>The compact tax text\<close>

lemma Impuesto_parse_IndexError_iff:
  "Impuesto_parse td s = Inl IndexError \<longleftrightarrow> CHR ''|'' \<notin> set s"
proof -
  have "Impuesto_parse td s = Inl IndexError \<longleftrightarrow> (\<exists>p. split_on (CHR ''|'') s = [p])"
    using split_on_not_Nil[of "CHR ''|''" s]
    by (auto simp: Impuesto_parse_def split: list.splits option.splits)
  then show ?thesis by (simp add: split_on_single_iff)
qed

lemma Impuesto_parse_two:
  assumes "CHR ''|'' \<notin> set k" "CHR ''|'' \<notin> set f"
  shows "Impuesto_parse td (k @ ''|'' @ f) = Inr (Impuesto_init k f None None None)"
  using assms by (simp add: Impuesto_parse_def split_on_append split_on_no_delim)

lemma Impuesto_parse_three:
  assumes "CHR ''|'' \<notin> set k" "CHR ''|'' \<notin> set f" "CHR ''|'' \<notin> set r"
  shows "Impuesto_parse td (k @ ''|'' @ f @ ''|'' @ r) =
     (case td r of
        None \<Rightarrow> Inl InvalidOperation
      | Some q \<Rightarrow> Inr (Impuesto_init k f (Some q) None None))"
  using assms by (simp add: Impuesto_parse_def split_on_append split_on_no_delim)

lemma Impuesto_parse_more:
  assumes "CHR ''|'' \<notin> set k" "CHR ''|'' \<notin> set f" "CHR ''|'' \<notin> set r"
  shows "Impuesto_parse td (k @ ''|'' @ f @ ''|'' @ r @ ''|'' @ extra) =
     (case td r of
        None \<Rightarrow> Inl InvalidOperation
      | Some q \<Rightarrow> Inr (Impuesto_init k f (Some q) None None))"
proof -
  obtain p ps where "split_on (CHR ''|'') extra = p # ps"
    using split_on_not_Nil[of "CHR ''|''" extra] by (cases "split_on (CHR ''|'') extra") auto
  then show ?thesis
    using assms by (simp add: Impuesto_parse_def split_on_append)
qed

text \<open>
  C8 as stated fails where the kind or the factor part is there but empty. The texts
  \<^verbatim>\<open>|Tasa\<close>, \<^verbatim>\<open>IVA|\<close>, \<^verbatim>\<open>|\<close> and \<^verbatim>\<open>|Tasa|0.16\<close> have no kind or no factor, and
  \<^verbatim>\<open>Impuesto.parse\<close> accepts each of them: \<^verbatim>\<open>split\<close> answers the empty text for the missing
  part, and nothing looks at what the parts hold.
\<close>

theorem Impuesto_parse_spec_counterexample:
  "Impuesto_parse decimal_ejemplo ''|Tasa'' =
     Inr \<lparr>Base = None, Impuesto = '''', TipoFactor = ''Tasa'', TasaOCuota = None,
          Importe = None\<rparr> \<and>
   Impuesto_parse decimal_ejemplo ''IVA|'' =
     Inr \<lparr>Base = None, Impuesto = ''002'', TipoFactor = '''', TasaOCuota = None,
          Importe = None\<rparr> \<and>
   Impuesto_parse decimal_ejemplo ''|'' =
     Inr \<lparr>Base = None, Impuesto = '''', TipoFactor = '''', TasaOCuota = None,
          Importe = None\<rparr> \<and>
   Impuesto_parse decimal_ejemplo ''|Tasa|0.16'' =
     Inr \<lparr>Base = None, Impuesto = '''', TipoFactor = ''Tasa'', TasaOCuota = Some (4 / 25),
          Importe = None\<rparr>"
  by (simp add: Impuesto_parse_def Impuesto_init_def impuestos_dict_def decimal_ejemplo_def)

text \<open>
  C8, as the source has it. \<^verbatim>\<open>Impuesto.parse\<close> splits the text at every \<^verbatim>\<open>|\<close>. The first
  piece is the kind, the second the factor type, the third, when there is one, the rate as
  a decimal; further pieces are ignored. Without a third piece the rate is absent. The
  parse fails with the index error of \<^verbatim>\<open>parts[1]\<close> (the malformed-text failure of the
  specification) exactly when the text has no delimiter, that is when there is no second
  piece at all. A kind or a factor type that is the empty text is not rejected: it is
  stored as it is. A third piece that is no decimal number fails in \<^verbatim>\<open>Decimal\<close>.
\<close>

theorem Impuesto_parse_spec:
  assumes "CHR ''|'' \<notin> set k" "CHR ''|'' \<notin> set f" "CHR ''|'' \<notin> set r"
  shows "(Impuesto_parse td s = Inl IndexError \<longleftrightarrow> CHR ''|'' \<notin> set s) \<and>
         Impuesto_parse td k = Inl IndexError \<and>
         Impuesto_parse td (k @ ''|'' @ f) = Inr (Impuesto_init k f None None None) \<and>
         Impuesto_parse td (k @ ''|'' @ f @ ''|'' @ r) =
           (case td r of
              None \<Rightarrow> Inl InvalidOperation
            | Some q \<Rightarrow> Inr (Impuesto_init k f (Some q) None None)) \<and>
         Impuesto_parse td (k @ ''|'' @ f @ ''|'' @ r @ ''|'' @ extra) =
           Impuesto_parse td (k @ ''|'' @ f @ ''|'' @ r) \<and>
         Impuesto_parse td (''|'' @ f) = Inr (Impuesto_init '''' f None None None) \<and>
         Impuesto_parse td (k @ ''|'') = Inr (Impuesto_init k '''' None None None) \<and>
         Impuesto_parse td ''|'' = Inr (Impuesto_init '''' '''' None None None)"
proof -
  have a: "Impuesto_parse td k = Inl IndexError"
    using assms(1) by (simp add: Impuesto_parse_IndexError_iff)
  have b: "Impuesto_parse td (''|'' @ f) = Inr (Impuesto_init '''' f None None None)"
    using Impuesto_parse_two[of "''''" f td] assms(2) by simp
  have c: "Impuesto_parse td (k @ ''|'') = Inr (Impuesto_init k '''' None None None)"
    using Impuesto_parse_two[of k "''''" td] assms(1) by simp
  have d: "Impuesto_parse td ''|'' = Inr (Impuesto_init '''' '''' None None None)"
    using Impuesto_parse_two[of "''''" "''''" td] by simp
  show ?thesis
    using assms a b c d
    by (simp only: Impuesto_parse_IndexError_iff Impuesto_parse_two Impuesto_parse_three
        Impuesto_parse_more simp_thms)
qed

text \<open>The amended C8 at texts with no, one, two and three delimiters and with empty parts.\<close>

theorem Impuesto_parse_spec_witness:
  "Impuesto_parse decimal_ejemplo ''IVA Tasa 0.16'' = Inl IndexError \<and>
   Impuesto_parse decimal_ejemplo ''IVA'' = Inl IndexError \<and>
   Impuesto_parse decimal_ejemplo ''IVA|Tasa'' =
     Inr \<lparr>Base = None, Impuesto = ''002'', TipoFactor = ''Tasa'', TasaOCuota = None,
          Importe = None\<rparr> \<and>
   Impuesto_parse decimal_ejemplo ''IVA|Tasa|0.16'' =
     Inr \<lparr>Base = None, Impuesto = ''002'', TipoFactor = ''Tasa'', TasaOCuota = Some (4 / 25),
          Importe = None\<rparr> \<and>
   Impuesto_parse decimal_ejemplo ''IVA|Tasa|0.16|x'' =
     Inr \<lparr>Base = None, Impuesto = ''002'', TipoFactor = ''Tasa'', TasaOCuota = Some (4 / 25),
          Importe = None\<rparr> \<and>
   Impuesto_parse decimal_ejemplo ''|Tasa'' =
     Inr \<lparr>Base = None, Impuesto = '''', TipoFactor = ''Tasa'', TasaOCuota = None,
          Importe = None\<rparr> \<and>
   Impuesto_parse decimal_ejemplo ''IVA|'' =
     Inr \<lparr>Base = None, Impuesto = ''002'', TipoFactor = '''', TasaOCuota = None,
          Importe = None\<rparr> \<and>
   Impuesto_parse decimal_ejemplo ''|'' =
     Inr \<lparr>Base = None, Impuesto = '''', TipoFactor = '''', TasaOCuota = None,
          Importe = None\<rparr>"
proof -
  have h: "CHR ''|'' \<notin> set ''IVA''" "CHR ''|'' \<notin> set ''Tasa''" "CHR ''|'' \<notin> set ''0.16''"
    and h': "CHR ''|'' \<notin> set ''IVA Tasa 0.16''"
    by simp_all
  show ?thesis
    using Impuesto_parse_spec[OF h, of decimal_ejemplo "''IVA Tasa 0.16''" "''x''"] h'
    by (simp add: decimal_ejemplo_def Impuesto_init_def impuestos_dict_def)
qed

section \<open>The kind of a tax\<close>

text \<open>
  C9. The constructor of \<^verbatim>\<open>Impuesto\<close> stores the kinds \<^verbatim>\<open>ISR\<close>, \<^verbatim>\<open>IVA\<close> and \<^verbatim>\<open>IEPS\<close> as
  the codes \<^verbatim>\<open>001\<close>, \<^verbatim>\<open>002\<close> and \<^verbatim>\<open>003\<close> and every other text as it is given, a code or
  an unknown name alike. It has no failing branch, and the other four values are stored
  unchanged.
\<close>

theorem Impuesto_init_kind:
  "Impuesto_init k f t i b =
     \<lparr>Base = b,
      Impuesto = (if k = ''ISR'' then ''001'' else if k = ''IVA'' then ''002''
                  else if k = ''IEPS'' then ''003'' else k),
      TipoFactor = f, TasaOCuota = t, Importe = i\<rparr>"
  by (simp add: Impuesto_init_def impuestos_dict_def)

section \<open>Totals of the document\<close>

lemmas ejemplo_defs =
  args_ejemplo_def concepto_con_impuestos_def concepto_sin_impuestos_def emisor_ejemplo_def
  receptor_ejemplo_def tabla_ejemplo_def rounder_spec_def concepto_precio_incluido_def
  concepto_fraccion_def concepto_tasa_alta_def concepto_ambiguo_def

lemmas modelo_defs =
  Comprobante_init_def procesa_concepto_def valor_unitario_local_def valor_sin_traslados_def
  lleva_base_o_importe_def calcula_impuestos_def base_de_impuestos_def or_zero_def
  Impuesto_init_def impuestos_dict_def make_impuesto_spec_def make_impuestos_spec_def
  agrupa_def misma_clave_def traslados_de_def retenciones_de_def impuesto_de_grupo_def Let_def

lemma Comprobante_init_fields:
  assumes "Comprobante_init td rounder mk mk_imps a = Inr d"
  shows "cfdi_SubTotal d = sum_list (map cc_Importe (cfdi_Conceptos d))"
    and "cfdi_Descuento d =
           (if sum_list (map (\<lambda>c. or_zero (cc_Descuento c)) (cfdi_Conceptos d)) = 0 then None
            else Some (sum_list (map (\<lambda>c. or_zero (cc_Descuento c)) (cfdi_Conceptos d))))"
    and "cfdi_Impuestos d = mk_imps (cfdi_Conceptos d)"
    and "cfdi_Total d =
           (case mk_imps (cfdi_Conceptos d) of
              None \<Rightarrow> cfdi_SubTotal d
                        - sum_list (map (\<lambda>c. or_zero (cc_Descuento c)) (cfdi_Conceptos d))
            | Some i \<Rightarrow> cfdi_SubTotal d
                        - sum_list (map (\<lambda>c. or_zero (cc_Descuento c)) (cfdi_Conceptos d))
                        + or_zero (TotalImpuestosTrasladados i)
                        - or_zero (TotalImpuestosRetenidos i))"
    and "cfdi_Complemento d = arg_complemento a"
    and "cfdi_Moneda d = arg_moneda a"
  using assms unfolding Comprobante_init_def
  by (auto simp: Let_def split: option.splits sum.splits)

text \<open>
  C1. For every list of concepts that the constructor accepts, \<^verbatim>\<open>SubTotal\<close> is the plain
  sum of the stored \<^verbatim>\<open>Importe\<close> values of the concepts (each rounded once, in the loop, and
  not again), the discount of the document is the sum of the concepts' \<^verbatim>\<open>Descuento\<close>
  values (an absent one counts 0, and an absent discount of the document stands for 0),
  and \<^verbatim>\<open>Total\<close> is \<^verbatim>\<open>SubTotal\<close> minus that discount plus the transferred total minus the
  withheld total, both taken as 0 when the document carries no taxes.
\<close>

theorem Comprobante_totales:
  assumes "Comprobante_init td rounder mk mk_imps a = Inr d"
  shows "cfdi_SubTotal d = sum_list (map cc_Importe (cfdi_Conceptos d)) \<and>
         or_zero (cfdi_Descuento d) = sum_list (map (\<lambda>c. or_zero (Descuento c)) (arg_conceptos a)) \<and>
         cfdi_Total d =
           cfdi_SubTotal d - or_zero (cfdi_Descuento d)
           + (case cfdi_Impuestos d of None \<Rightarrow> 0 | Some i \<Rightarrow> or_zero (TotalImpuestosTrasladados i))
           - (case cfdi_Impuestos d of None \<Rightarrow> 0 | Some i \<Rightarrow> or_zero (TotalImpuestosRetenidos i))"
proof -
  from Comprobante_init_Inr[OF assms] obtain rnd where
    t: "traverse (procesa_concepto td mk rnd) (arg_conceptos a) = Inr (cfdi_Conceptos d)"
    by blast
  have s: "sum_list (map (\<lambda>k. or_zero (cc_Descuento k)) (cfdi_Conceptos d)) =
           sum_list (map (\<lambda>c. or_zero (Descuento c)) (arg_conceptos a))"
    using sum_descuentos[OF conceptos_descuento[OF t]] .
  note f = Comprobante_init_fields[OF assms]
  have d: "or_zero (cfdi_Descuento d) =
           sum_list (map (\<lambda>k. or_zero (cc_Descuento k)) (cfdi_Conceptos d))"
    by (simp add: f(2) or_zero_def)
  have "cfdi_Total d =
           cfdi_SubTotal d - or_zero (cfdi_Descuento d)
           + (case cfdi_Impuestos d of None \<Rightarrow> 0 | Some i \<Rightarrow> or_zero (TotalImpuestosTrasladados i))
           - (case cfdi_Impuestos d of None \<Rightarrow> 0 | Some i \<Rightarrow> or_zero (TotalImpuestosRetenidos i))"
    unfolding d f(3) by (subst f(4)) (simp split: option.splits)
  then show ?thesis using f(1) d s by simp
qed

lemma descuento_ausente:
  "list_all (\<lambda>c. Descuento c = None) cs \<Longrightarrow> sum_list (map (\<lambda>c. or_zero (Descuento c)) cs) = 0"
  by (induction cs) (auto simp: or_zero_def)

text \<open>
  C10. The field \<^verbatim>\<open>Descuento\<close> of the document is absent when the concepts' discounts sum
  to zero, in particular when no concept carries a discount, and holds the sum otherwise:
  it is present exactly when the sum is not zero.
\<close>

theorem Comprobante_Descuento:
  assumes "Comprobante_init td rounder mk mk_imps a = Inr d"
  shows "cfdi_Descuento d =
           (if sum_list (map (\<lambda>c. or_zero (Descuento c)) (arg_conceptos a)) = 0 then None
            else Some (sum_list (map (\<lambda>c. or_zero (Descuento c)) (arg_conceptos a)))) \<and>
         (cfdi_Descuento d = None \<longleftrightarrow>
            sum_list (map (\<lambda>c. or_zero (Descuento c)) (arg_conceptos a)) = 0) \<and>
         (list_all (\<lambda>c. Descuento c = None) (arg_conceptos a) \<longrightarrow> cfdi_Descuento d = None)"
proof -
  from Comprobante_init_Inr[OF assms] obtain rnd where
    t: "traverse (procesa_concepto td mk rnd) (arg_conceptos a) = Inr (cfdi_Conceptos d)"
    by blast
  have s: "sum_list (map (\<lambda>k. or_zero (cc_Descuento k)) (cfdi_Conceptos d)) =
           sum_list (map (\<lambda>c. or_zero (Descuento c)) (arg_conceptos a))"
    using sum_descuentos[OF conceptos_descuento[OF t]] .
  show ?thesis
    using Comprobante_init_fields(2)[OF assms] descuento_ausente[of "arg_conceptos a"]
    unfolding s by simp
qed

theorem Comprobante_totales_witness:
  "\<exists>d. Comprobante_init (\<lambda>_. None) (rounder_spec tabla_ejemplo) make_impuesto_spec
          make_impuestos_spec (args_ejemplo [concepto_con_impuestos, concepto_sin_impuestos]) = Inr d \<and>
        map cc_Importe (cfdi_Conceptos d) = [200, 50] \<and>
        cfdi_SubTotal d = 250 \<and> cfdi_Descuento d = Some 10 \<and> cfdi_Total d = 1257 / 5 \<and>
        cfdi_SubTotal d = sum_list (map cc_Importe (cfdi_Conceptos d)) \<and>
        or_zero (cfdi_Descuento d) =
          sum_list (map (\<lambda>c. or_zero (Descuento c)) [concepto_con_impuestos, concepto_sin_impuestos]) \<and>
        cfdi_Total d =
           cfdi_SubTotal d - or_zero (cfdi_Descuento d)
           + (case cfdi_Impuestos d of None \<Rightarrow> 0 | Some i \<Rightarrow> or_zero (TotalImpuestosTrasladados i))
           - (case cfdi_Impuestos d of None \<Rightarrow> 0 | Some i \<Rightarrow> or_zero (TotalImpuestosRetenidos i))"
proof -
  have "\<exists>d. Comprobante_init (\<lambda>_. None) (rounder_spec tabla_ejemplo) make_impuesto_spec
          make_impuestos_spec (args_ejemplo [concepto_con_impuestos, concepto_sin_impuestos]) = Inr d \<and>
        map cc_Importe (cfdi_Conceptos d) = [200, 50] \<and>
        cfdi_SubTotal d = 250 \<and> cfdi_Descuento d = Some 10 \<and> cfdi_Total d = 1257 / 5"
    by (simp add: modelo_defs ejemplo_defs redondea_simps)
  then obtain d where
    h: "Comprobante_init (\<lambda>_. None) (rounder_spec tabla_ejemplo) make_impuesto_spec
          make_impuestos_spec (args_ejemplo [concepto_con_impuestos, concepto_sin_impuestos]) = Inr d"
    and v: "map cc_Importe (cfdi_Conceptos d) = [200, 50]"
       "cfdi_SubTotal d = 250" "cfdi_Descuento d = Some 10" "cfdi_Total d = 1257 / 5"
    by (elim exE conjE)
  have a: "arg_conceptos (args_ejemplo [concepto_con_impuestos, concepto_sin_impuestos] :: unit comprobante_args)
      = [concepto_con_impuestos, concepto_sin_impuestos]"
    by (simp add: args_ejemplo_def)
  from Comprobante_totales[OF h] h v show ?thesis
    unfolding a by (intro exI[of _ d]) simp
qed

theorem Comprobante_Descuento_witness:
  "\<exists>d d'. Comprobante_init (\<lambda>_. None) (rounder_spec tabla_ejemplo) make_impuesto_spec
          make_impuestos_spec (args_ejemplo [concepto_con_impuestos, concepto_sin_impuestos]) = Inr d \<and>
        sum_list (map (\<lambda>c. or_zero (Descuento c)) [concepto_con_impuestos, concepto_sin_impuestos]) = 10 \<and>
        cfdi_Descuento d = Some 10 \<and>
        Comprobante_init (\<lambda>_. None) (rounder_spec tabla_ejemplo) make_impuesto_spec
          make_impuestos_spec (args_ejemplo [concepto_sin_impuestos]) = Inr d' \<and>
        list_all (\<lambda>c. Descuento c = None) [concepto_sin_impuestos] \<and>
        sum_list (map (\<lambda>c. or_zero (Descuento c)) [concepto_sin_impuestos]) = 0 \<and>
        cfdi_Descuento d' = None"
proof -
  have "\<exists>d. Comprobante_init (\<lambda>_. None) (rounder_spec tabla_ejemplo) make_impuesto_spec
          make_impuestos_spec (args_ejemplo [concepto_con_impuestos, concepto_sin_impuestos]) = Inr d"
    by (simp add: modelo_defs ejemplo_defs redondea_simps)
  then obtain d where
    h: "Comprobante_init (\<lambda>_. None) (rounder_spec tabla_ejemplo) make_impuesto_spec
          make_impuestos_spec (args_ejemplo [concepto_con_impuestos, concepto_sin_impuestos]) = Inr d"
    by (elim exE)
  have "\<exists>d. Comprobante_init (\<lambda>_. None) (rounder_spec tabla_ejemplo) make_impuesto_spec
          make_impuestos_spec (args_ejemplo [concepto_sin_impuestos]) = Inr d"
    by (simp add: modelo_defs ejemplo_defs redondea_simps)
  then obtain d' where
    h': "Comprobante_init (\<lambda>_. None) (rounder_spec tabla_ejemplo) make_impuesto_spec
          make_impuestos_spec (args_ejemplo [concepto_sin_impuestos]) = Inr d'"
    by (elim exE)
  have s: "sum_list (map (\<lambda>c. or_zero (Descuento c)) [concepto_con_impuestos, concepto_sin_impuestos]) = 10"
       "sum_list (map (\<lambda>c. or_zero (Descuento c)) [concepto_sin_impuestos]) = 0"
       "list_all (\<lambda>c. Descuento c = None) [concepto_sin_impuestos]"
    by (simp_all add: or_zero_def concepto_con_impuestos_def concepto_sin_impuestos_def)
  from Comprobante_Descuento[OF h] Comprobante_Descuento[OF h'] h h' s show ?thesis
    by (intro exI[of _ d] exI[of _ d']) (simp add: args_ejemplo_def)
qed

section \<open>The amount of a concept and the base of its taxes\<close>

lemma calcula_impuestos_Inr:
  assumes "calcula_impuestos mk rnd base tras rets = Inr imp"
  shows "list_all2 (\<lambda>i t. mk i base rnd = Some t) tras
           (case imp of None \<Rightarrow> [] | Some ci \<Rightarrow> (case ci_Traslados ci of None \<Rightarrow> [] | Some ts \<Rightarrow> ts))"
    and "list_all2 (\<lambda>i t. mk i base rnd = Some t) rets
           (case imp of None \<Rightarrow> [] | Some ci \<Rightarrow> (case ci_Retenciones ci of None \<Rightarrow> [] | Some rs \<Rightarrow> rs))"
proof -
  let ?compute = "\<lambda>i. case mk i base rnd of None \<Rightarrow> Inl CollaboratorError | Some t \<Rightarrow> Inr t"
  from assms obtain ts rs where
    ts: "traverse ?compute tras = Inr ts" and rs: "traverse ?compute rets = Inr rs" and
    imp: "imp = (if tras = [] \<and> rets = [] then None
                 else Some \<lparr>ci_Traslados = (if tras = [] then None else Some ts),
                            ci_Retenciones = (if rets = [] then None else Some rs)\<rparr>)"
    unfolding calcula_impuestos_def by (auto simp: Let_def split: sum.splits)
  have c: "?compute i = Inr t \<Longrightarrow> mk i base rnd = Some t" for i t
    by (auto split: option.splits)
  have a: "list_all2 (\<lambda>i t. mk i base rnd = Some t) tras ts"
    using traverse_list_all2[OF ts] by (rule list_all2_mono) (rule c)
  have b: "list_all2 (\<lambda>i t. mk i base rnd = Some t) rets rs"
    using traverse_list_all2[OF rs] by (rule list_all2_mono) (rule c)
  show "list_all2 (\<lambda>i t. mk i base rnd = Some t) tras
           (case imp of None \<Rightarrow> [] | Some ci \<Rightarrow> (case ci_Traslados ci of None \<Rightarrow> [] | Some ts \<Rightarrow> ts))"
    using a by (auto simp: imp)
  show "list_all2 (\<lambda>i t. mk i base rnd = Some t) rets
           (case imp of None \<Rightarrow> [] | Some ci \<Rightarrow> (case ci_Retenciones ci of None \<Rightarrow> [] | Some rs \<Rightarrow> rs))"
    using b by (auto simp: imp)
qed

lemma procesa_concepto_impuestos:
  assumes "procesa_concepto td mk rnd c = Inr k"
    and "traverse (as_impuesto td) (Traslados c) = Inr tras"
    and "traverse (as_impuesto td) (Retenciones c) = Inr rets"
    and "valor_unitario_local tras c = Inr v"
    and "ObjetoImp c \<noteq> Some ''01''" "ObjetoImp c \<noteq> Some ''03''"
  shows "list_all2 (\<lambda>i t. mk i (Cantidad c * v - or_zero (Descuento c)) rnd = Some t)
           tras (traslados_de [k])"
    and "list_all2 (\<lambda>i t. mk i (Cantidad c * v - or_zero (Descuento c)) rnd = Some t)
           rets (retenciones_de [k])"
proof -
  from procesa_concepto_Inr[OF assms(1)] assms(2-6)
  have "calcula_impuestos mk rnd (base_de_impuestos c v) tras rets = Inr (cc_Impuestos k)"
    by auto
  from calcula_impuestos_Inr[OF this]
  show "list_all2 (\<lambda>i t. mk i (Cantidad c * v - or_zero (Descuento c)) rnd = Some t)
           tras (traslados_de [k])"
    and "list_all2 (\<lambda>i t. mk i (Cantidad c * v - or_zero (Descuento c)) rnd = Some t)
           rets (retenciones_de [k])"
    by (simp_all add: base_de_impuestos_def traslados_de_def retenciones_de_def)
qed

text \<open>
  C6 as stated fails on a tax-inclusive concept. A hundred units at the inclusive price
  10.03 with a transferred rate of 25 %, in a currency of two decimals: the quotient is
  8.024, the stored \<^verbatim>\<open>ValorUnitario\<close> is 8.02, and the stored \<^verbatim>\<open>Importe\<close> is 802.40, the
  rounding of 100 times 8.024, while 100 times the stored 8.02 rounds to 802.00.
\<close>

theorem Comprobante_Importe_counterexample:
  "\<not> isl (Comprobante_init decimal_ejemplo (rounder_spec tabla_ejemplo) make_impuesto_spec
            make_impuestos_spec (args_ejemplo [concepto_precio_incluido])) \<and>
   map cc_Cantidad (cfdi_Conceptos (projr
     (Comprobante_init decimal_ejemplo (rounder_spec tabla_ejemplo) make_impuesto_spec
        make_impuestos_spec (args_ejemplo [concepto_precio_incluido])))) = [100] \<and>
   map cc_ValorUnitario (cfdi_Conceptos (projr
     (Comprobante_init decimal_ejemplo (rounder_spec tabla_ejemplo) make_impuesto_spec
        make_impuestos_spec (args_ejemplo [concepto_precio_incluido])))) = [401 / 50] \<and>
   map cc_Importe (cfdi_Conceptos (projr
     (Comprobante_init decimal_ejemplo (rounder_spec tabla_ejemplo) make_impuesto_spec
        make_impuestos_spec (args_ejemplo [concepto_precio_incluido])))) = [4012 / 5] \<and>
   rounder_spec tabla_ejemplo ''MXN'' = Some (redondea 2) \<and>
   redondea 2 (100 * (401 / 50)) = 802 \<and>
   redondea 2 (100 * (401 / 50)) \<noteq> 4012 / 5"
proof -
  have "\<exists>d. Comprobante_init decimal_ejemplo (rounder_spec tabla_ejemplo) make_impuesto_spec
            make_impuestos_spec (args_ejemplo [concepto_precio_incluido]) = Inr d \<and>
          map cc_Cantidad (cfdi_Conceptos d) = [100] \<and>
          map cc_ValorUnitario (cfdi_Conceptos d) = [401 / 50] \<and>
          map cc_Importe (cfdi_Conceptos d) = [4012 / 5]"
    by (simp add: modelo_defs ejemplo_defs redondea_simps)
  then obtain d where
    "Comprobante_init decimal_ejemplo (rounder_spec tabla_ejemplo) make_impuesto_spec
            make_impuestos_spec (args_ejemplo [concepto_precio_incluido]) = Inr d"
    "map cc_Cantidad (cfdi_Conceptos d) = [100]"
    "map cc_ValorUnitario (cfdi_Conceptos d) = [401 / 50]"
    "map cc_Importe (cfdi_Conceptos d) = [4012 / 5]"
    by (elim exE conjE)
  moreover have "rounder_spec tabla_ejemplo ''MXN'' = Some (redondea 2)"
    by (simp add: rounder_spec_def tabla_ejemplo_def)
  moreover have "redondea 2 (100 * (401 / 50)) = 802"
    by (simp add: redondea_simps)
  ultimately show ?thesis by simp
qed

text \<open>
  C6, as the source has it. For every concept that the constructor processes, the stored
  \<^verbatim>\<open>Importe\<close> is the rounding, at the precision of the document's currency, of
  \<^verbatim>\<open>Cantidad\<close> times the local unit price. For a concept that is not tax-inclusive the
  local unit price is the given \<^verbatim>\<open>ValorUnitario\<close>, which stays as it is, so \<^verbatim>\<open>Importe\<close> is
  the rounded product of the stored \<^verbatim>\<open>Cantidad\<close> and \<^verbatim>\<open>ValorUnitario\<close>. For a
  tax-inclusive concept the local unit price is the quotient
  \<^verbatim>\<open>(ValorUnitario - s_cuota) / (s_tasa + 1)\<close> before rounding: the stored \<^verbatim>\<open>ValorUnitario\<close>
  is that quotient rounded, the stored \<^verbatim>\<open>Importe\<close> is the rounding of \<^verbatim>\<open>Cantidad\<close> times the
  quotient that was not rounded.
\<close>

theorem Comprobante_Importe:
  assumes "Comprobante_init td rounder mk mk_imps a = Inr d"
  shows "\<exists>rnd. rounder (arg_moneda a) = Some rnd \<and>
           list_all2
             (\<lambda>c k. if traslados_incluidos c then
                       (\<exists>tras s_tasa s_cuota.
                          traverse (as_impuesto td) (Traslados c) = Inr tras \<and>
                          suma_tasa_o_cuota ''Tasa'' tras = Inr s_tasa \<and>
                          suma_tasa_o_cuota ''Cuota'' tras = Inr s_cuota \<and>
                          cc_ValorUnitario k = rnd ((ValorUnitario c - s_cuota) / (s_tasa + 1)) \<and>
                          cc_Importe k =
                            rnd (Cantidad c * ((ValorUnitario c - s_cuota) / (s_tasa + 1))))
                     else cc_ValorUnitario k = ValorUnitario c \<and>
                          cc_Importe k = rnd (cc_Cantidad k * cc_ValorUnitario k))
             (arg_conceptos a) (cfdi_Conceptos d)"
proof -
  from Comprobante_init_Inr[OF assms] obtain rnd where
    r: "rounder (arg_moneda a) = Some rnd" and
    t: "traverse (procesa_concepto td mk rnd) (arg_conceptos a) = Inr (cfdi_Conceptos d)"
    by blast
  have "list_all2 (\<lambda>c k. procesa_concepto td mk rnd c = Inr k) (arg_conceptos a) (cfdi_Conceptos d)"
    using traverse_list_all2[OF t] .
  then have "list_all2
             (\<lambda>c k. if traslados_incluidos c then
                       (\<exists>tras s_tasa s_cuota.
                          traverse (as_impuesto td) (Traslados c) = Inr tras \<and>
                          suma_tasa_o_cuota ''Tasa'' tras = Inr s_tasa \<and>
                          suma_tasa_o_cuota ''Cuota'' tras = Inr s_cuota \<and>
                          cc_ValorUnitario k = rnd ((ValorUnitario c - s_cuota) / (s_tasa + 1)) \<and>
                          cc_Importe k =
                            rnd (Cantidad c * ((ValorUnitario c - s_cuota) / (s_tasa + 1))))
                     else cc_ValorUnitario k = ValorUnitario c \<and>
                          cc_Importe k = rnd (cc_Cantidad k * cc_ValorUnitario k))
             (arg_conceptos a) (cfdi_Conceptos d)"
  proof (rule list_all2_mono)
    fix c k
    assume p: "procesa_concepto td mk rnd c = Inr k"
    from procesa_concepto_Inr[OF p] obtain tras v where
      x: "traverse (as_impuesto td) (Traslados c) = Inr tras"
         "valor_unitario_local tras c = Inr v"
         "cc_Cantidad k = Cantidad c"
         "cc_ValorUnitario k = (if traslados_incluidos c then rnd v else ValorUnitario c)"
         "cc_Importe k = rnd (Cantidad c * v)"
      by blast
    show "if traslados_incluidos c then
                       (\<exists>tras s_tasa s_cuota.
                          traverse (as_impuesto td) (Traslados c) = Inr tras \<and>
                          suma_tasa_o_cuota ''Tasa'' tras = Inr s_tasa \<and>
                          suma_tasa_o_cuota ''Cuota'' tras = Inr s_cuota \<and>
                          cc_ValorUnitario k = rnd ((ValorUnitario c - s_cuota) / (s_tasa + 1)) \<and>
                          cc_Importe k =
                            rnd (Cantidad c * ((ValorUnitario c - s_cuota) / (s_tasa + 1))))
                     else cc_ValorUnitario k = ValorUnitario c \<and>
                          cc_Importe k = rnd (cc_Cantidad k * cc_ValorUnitario k)"
    proof (cases "traslados_incluidos c")
      case True
      with x(2) have "valor_sin_traslados tras (ValorUnitario c) = Inr v"
        by (simp add: valor_unitario_local_def)
      from valor_sin_traslados_Inr[OF this] True x show ?thesis by auto
    next
      case False
      with x show ?thesis by (simp add: valor_unitario_local_def)
    qed
  qed
  with r show ?thesis by blast
qed

text \<open>The amended C6 at a document with one tax-inclusive and one plain concept.\<close>

theorem Comprobante_Importe_witness:
  "\<exists>d. Comprobante_init decimal_ejemplo (rounder_spec tabla_ejemplo) make_impuesto_spec
          make_impuestos_spec (args_ejemplo [concepto_precio_incluido, concepto_sin_impuestos]) = Inr d \<and>
        map cc_ValorUnitario (cfdi_Conceptos d) = [401 / 50, 50] \<and>
        map cc_Importe (cfdi_Conceptos d) = [4012 / 5, 50] \<and>
        redondea 2 (100 * ((1003 / 100 - 0) / (1 / 4 + 1))) = 4012 / 5 \<and>
        (\<exists>rnd. rounder_spec tabla_ejemplo
                  (arg_moneda (args_ejemplo [concepto_precio_incluido, concepto_sin_impuestos]
                     :: unit comprobante_args)) = Some rnd \<and>
           list_all2
             (\<lambda>c k. if traslados_incluidos c then
                       (\<exists>tras s_tasa s_cuota.
                          traverse (as_impuesto decimal_ejemplo) (Traslados c) = Inr tras \<and>
                          suma_tasa_o_cuota ''Tasa'' tras = Inr s_tasa \<and>
                          suma_tasa_o_cuota ''Cuota'' tras = Inr s_cuota \<and>
                          cc_ValorUnitario k = rnd ((ValorUnitario c - s_cuota) / (s_tasa + 1)) \<and>
                          cc_Importe k =
                            rnd (Cantidad c * ((ValorUnitario c - s_cuota) / (s_tasa + 1))))
                     else cc_ValorUnitario k = ValorUnitario c \<and>
                          cc_Importe k = rnd (cc_Cantidad k * cc_ValorUnitario k))
             (arg_conceptos (args_ejemplo [concepto_precio_incluido, concepto_sin_impuestos]
                     :: unit comprobante_args)) (cfdi_Conceptos d))"
proof -
  have "\<exists>d. Comprobante_init decimal_ejemplo (rounder_spec tabla_ejemplo) make_impuesto_spec
          make_impuestos_spec (args_ejemplo [concepto_precio_incluido, concepto_sin_impuestos]) = Inr d \<and>
        map cc_ValorUnitario (cfdi_Conceptos d) = [401 / 50, 50] \<and>
        map cc_Importe (cfdi_Conceptos d) = [4012 / 5, 50]"
    by (simp add: modelo_defs ejemplo_defs redondea_simps)
  then obtain d where
    h: "Comprobante_init decimal_ejemplo (rounder_spec tabla_ejemplo) make_impuesto_spec
          make_impuestos_spec (args_ejemplo [concepto_precio_incluido, concepto_sin_impuestos]) = Inr d"
    and v: "map cc_ValorUnitario (cfdi_Conceptos d) = [401 / 50, 50]"
       "map cc_Importe (cfdi_Conceptos d) = [4012 / 5, 50]"
    by (elim exE conjE)
  have r: "redondea 2 (100 * ((1003 / 100 - 0) / (1 / 4 + 1))) = 4012 / 5"
    by (simp add: redondea_simps)
  from Comprobante_Importe[OF h] h v r show ?thesis
    by (intro exI[of _ d] conjI) assumption+
qed

text \<open>
  C3 as stated fails where the product of quantity and unit price is no amount at the
  precision of the currency. Three units at 0.333 with 16 % transferred, no discount, two
  decimals: the stored \<^verbatim>\<open>Importe\<close> is 1.00, but the base handed to \<^verbatim>\<open>make_impuesto\<close> is the
  product 0.999 itself, not 1.00 - 0. The tax record is computed by the \<^verbatim>\<open>make_impuesto\<close>
  of the specification, which stores the base it is given.
\<close>

theorem Comprobante_base_de_impuestos_counterexample:
  "\<not> isl (Comprobante_init decimal_ejemplo (rounder_spec tabla_ejemplo) make_impuesto_spec
            make_impuestos_spec (args_ejemplo [concepto_fraccion])) \<and>
   ObjetoImp concepto_fraccion = None \<and>
   Descuento concepto_fraccion = None \<and>
   map cc_Importe (cfdi_Conceptos (projr
     (Comprobante_init decimal_ejemplo (rounder_spec tabla_ejemplo) make_impuesto_spec
        make_impuestos_spec (args_ejemplo [concepto_fraccion])))) = [1] \<and>
   map Base (traslados_de (cfdi_Conceptos (projr
     (Comprobante_init decimal_ejemplo (rounder_spec tabla_ejemplo) make_impuesto_spec
        make_impuestos_spec (args_ejemplo [concepto_fraccion]))))) = [Some (999 / 1000)] \<and>
   base_de_impuestos concepto_fraccion (333 / 1000) = 999 / 1000 \<and>
   redondea 2 (3 * (333 / 1000)) - 0 = 1"
proof -
  have "\<exists>d. Comprobante_init decimal_ejemplo (rounder_spec tabla_ejemplo) make_impuesto_spec
            make_impuestos_spec (args_ejemplo [concepto_fraccion]) = Inr d \<and>
          map cc_Importe (cfdi_Conceptos d) = [1] \<and>
          map Base (traslados_de (cfdi_Conceptos d)) = [Some (999 / 1000)]"
    by (simp add: modelo_defs ejemplo_defs redondea_simps)
  then obtain d where
    "Comprobante_init decimal_ejemplo (rounder_spec tabla_ejemplo) make_impuesto_spec
            make_impuestos_spec (args_ejemplo [concepto_fraccion]) = Inr d"
    "map cc_Importe (cfdi_Conceptos d) = [1]"
    "map Base (traslados_de (cfdi_Conceptos d)) = [Some (999 / 1000)]"
    by (elim exE conjE)
  moreover have "base_de_impuestos concepto_fraccion (333 / 1000) = 999 / 1000"
    by (simp add: base_de_impuestos_def concepto_fraccion_def or_zero_def)
  moreover have "redondea 2 (3 * (333 / 1000)) - 0 = 1"
    by (simp add: redondea_simps)
  ultimately show ?thesis by (simp add: concepto_fraccion_def)
qed

text \<open>
  C3, as the source has it. For every concept of an accepted document that is not declared
  not subject to tax (\<^verbatim>\<open>ObjetoImp\<close> neither \<^verbatim>\<open>01\<close> nor \<^verbatim>\<open>03\<close>), each transferred and each
  withheld tax record is what \<^verbatim>\<open>make_impuesto\<close> answers for the base
  \<^verbatim>\<open>Cantidad * valor_unitario - (Descuento or 0)\<close>, where the product is not rounded and
  \<^verbatim>\<open>valor_unitario\<close> is the local unit price: the given one, or the quotient before
  rounding when the concept is tax-inclusive.
\<close>

theorem Comprobante_base_de_impuestos:
  assumes "Comprobante_init td rounder mk mk_imps a = Inr d"
  shows "\<exists>rnd. rounder (arg_moneda a) = Some rnd \<and>
           list_all2
             (\<lambda>c k. ObjetoImp c \<noteq> Some ''01'' \<and> ObjetoImp c \<noteq> Some ''03'' \<longrightarrow>
                (\<exists>tras rets v.
                   traverse (as_impuesto td) (Traslados c) = Inr tras \<and>
                   traverse (as_impuesto td) (Retenciones c) = Inr rets \<and>
                   valor_unitario_local tras c = Inr v \<and>
                   list_all2 (\<lambda>i t. mk i (Cantidad c * v - or_zero (Descuento c)) rnd = Some t)
                     tras (traslados_de [k]) \<and>
                   list_all2 (\<lambda>i t. mk i (Cantidad c * v - or_zero (Descuento c)) rnd = Some t)
                     rets (retenciones_de [k])))
             (arg_conceptos a) (cfdi_Conceptos d)"
proof -
  from Comprobante_init_Inr[OF assms] obtain rnd where
    r: "rounder (arg_moneda a) = Some rnd" and
    t: "traverse (procesa_concepto td mk rnd) (arg_conceptos a) = Inr (cfdi_Conceptos d)"
    by blast
  have "list_all2 (\<lambda>c k. procesa_concepto td mk rnd c = Inr k) (arg_conceptos a) (cfdi_Conceptos d)"
    using traverse_list_all2[OF t] .
  then have "list_all2
             (\<lambda>c k. ObjetoImp c \<noteq> Some ''01'' \<and> ObjetoImp c \<noteq> Some ''03'' \<longrightarrow>
                (\<exists>tras rets v.
                   traverse (as_impuesto td) (Traslados c) = Inr tras \<and>
                   traverse (as_impuesto td) (Retenciones c) = Inr rets \<and>
                   valor_unitario_local tras c = Inr v \<and>
                   list_all2 (\<lambda>i t. mk i (Cantidad c * v - or_zero (Descuento c)) rnd = Some t)
                     tras (traslados_de [k]) \<and>
                   list_all2 (\<lambda>i t. mk i (Cantidad c * v - or_zero (Descuento c)) rnd = Some t)
                     rets (retenciones_de [k])))
             (arg_conceptos a) (cfdi_Conceptos d)"
  proof (rule list_all2_mono)
    fix c k
    assume p: "procesa_concepto td mk rnd c = Inr k"
    from procesa_concepto_Inr[OF p] obtain tras rets v where
      x: "traverse (as_impuesto td) (Traslados c) = Inr tras"
         "traverse (as_impuesto td) (Retenciones c) = Inr rets"
         "valor_unitario_local tras c = Inr v"
      by blast
    show "ObjetoImp c \<noteq> Some ''01'' \<and> ObjetoImp c \<noteq> Some ''03'' \<longrightarrow>
                (\<exists>tras rets v.
                   traverse (as_impuesto td) (Traslados c) = Inr tras \<and>
                   traverse (as_impuesto td) (Retenciones c) = Inr rets \<and>
                   valor_unitario_local tras c = Inr v \<and>
                   list_all2 (\<lambda>i t. mk i (Cantidad c * v - or_zero (Descuento c)) rnd = Some t)
                     tras (traslados_de [k]) \<and>
                   list_all2 (\<lambda>i t. mk i (Cantidad c * v - or_zero (Descuento c)) rnd = Some t)
                     rets (retenciones_de [k]))"
      using procesa_concepto_impuestos[OF p x] x by blast
  qed
  with r show ?thesis by blast
qed

text \<open>The amended C3 at the document of two concepts: the base is 2 * 100 - 10.\<close>

theorem Comprobante_base_de_impuestos_witness:
  "\<exists>d. Comprobante_init decimal_ejemplo (rounder_spec tabla_ejemplo) make_impuesto_spec
          make_impuestos_spec (args_ejemplo [concepto_con_impuestos, concepto_sin_impuestos]) = Inr d \<and>
        ObjetoImp concepto_con_impuestos \<noteq> Some ''01'' \<and>
        ObjetoImp concepto_con_impuestos \<noteq> Some ''03'' \<and>
        Cantidad concepto_con_impuestos * 100 - or_zero (Descuento concepto_con_impuestos) = 190 \<and>
        map Base (traslados_de (cfdi_Conceptos d)) = [Some 190] \<and>
        map Base (retenciones_de (cfdi_Conceptos d)) = [Some 190] \<and>
        (\<exists>rnd. rounder_spec tabla_ejemplo
                  (arg_moneda (args_ejemplo [concepto_con_impuestos, concepto_sin_impuestos]
                     :: unit comprobante_args)) = Some rnd \<and>
           list_all2
             (\<lambda>c k. ObjetoImp c \<noteq> Some ''01'' \<and> ObjetoImp c \<noteq> Some ''03'' \<longrightarrow>
                (\<exists>tras rets v.
                   traverse (as_impuesto decimal_ejemplo) (Traslados c) = Inr tras \<and>
                   traverse (as_impuesto decimal_ejemplo) (Retenciones c) = Inr rets \<and>
                   valor_unitario_local tras c = Inr v \<and>
                   list_all2 (\<lambda>i t. make_impuesto_spec i (Cantidad c * v - or_zero (Descuento c)) rnd = Some t)
                     tras (traslados_de [k]) \<and>
                   list_all2 (\<lambda>i t. make_impuesto_spec i (Cantidad c * v - or_zero (Descuento c)) rnd = Some t)
                     rets (retenciones_de [k])))
             (arg_conceptos (args_ejemplo [concepto_con_impuestos, concepto_sin_impuestos]
                     :: unit comprobante_args)) (cfdi_Conceptos d))"
proof -
  have "\<exists>d. Comprobante_init decimal_ejemplo (rounder_spec tabla_ejemplo) make_impuesto_spec
          make_impuestos_spec (args_ejemplo [concepto_con_impuestos, concepto_sin_impuestos]) = Inr d \<and>
        map Base (traslados_de (cfdi_Conceptos d)) = [Some 190] \<and>
        map Base (retenciones_de (cfdi_Conceptos d)) = [Some 190]"
    by (simp add: modelo_defs ejemplo_defs redondea_simps)
  then obtain d where
    h: "Comprobante_init decimal_ejemplo (rounder_spec tabla_ejemplo) make_impuesto_spec
          make_impuestos_spec (args_ejemplo [concepto_con_impuestos, concepto_sin_impuestos]) = Inr d"
    and v: "map Base (traslados_de (cfdi_Conceptos d)) = [Some 190]"
       "map Base (retenciones_de (cfdi_Conceptos d)) = [Some 190]"
    by (elim exE conjE)
  have o: "ObjetoImp concepto_con_impuestos \<noteq> Some ''01''"
          "ObjetoImp concepto_con_impuestos \<noteq> Some ''03''"
          "Cantidad concepto_con_impuestos * 100 - or_zero (Descuento concepto_con_impuestos) = 190"
    by (simp_all add: concepto_con_impuestos_def or_zero_def)
  from Comprobante_base_de_impuestos[OF h] h v o show ?thesis
    by (intro exI[of _ d] conjI) assumption+
qed

section \<open>The ambiguous tax base\<close>





section \<open>The round-trip law\<close>

lemma precio_con_traslados_diff:
  assumes "s_tasa + 1 \<noteq> 0"
  shows "precio_con_traslados w s_tasa s_cuota - precio =
         (w - (precio - s_cuota) / (s_tasa + 1)) * (1 + s_tasa)"
proof -
  have "(precio - s_cuota) / (s_tasa + 1) * (1 + s_tasa) = precio - s_cuota"
    using assms by (simp add: add.commute)
  then show ?thesis
    by (simp add: precio_con_traslados_def algebra_simps)
qed

text \<open>
  C5 as stated fails when the rates sum to more than 1. A price of 0.118 that includes one
  transferred tax at the rate 1.6, two decimals: the quotient 0.118 / 2.6 is 0.04538...,
  which rounds to 0.05 under every rounding to the nearest cent; the price with taxes of
  0.05 is 0.05 + 0.08 = 0.13 (the tax 0.08 is an amount in cents, so rounding it changes
  nothing), and 0.13 differs from 0.118 by 0.012, more than one cent.
\<close>

theorem precio_incluido_round_trip_counterexample:
  "traslados_incluidos concepto_tasa_alta \<and>
   ValorUnitario concepto_tasa_alta = 59 / 500 \<and>
   list_ex lleva_base_o_importe [Impuesto_init ''IVA'' ''Tasa'' (Some (8 / 5)) None None] = False \<and>
   traverse (as_impuesto decimal_ejemplo) (Traslados concepto_tasa_alta) =
     Inr [Impuesto_init ''IVA'' ''Tasa'' (Some (8 / 5)) None None] \<and>
   suma_tasa_o_cuota ''Tasa'' [Impuesto_init ''IVA'' ''Tasa'' (Some (8 / 5)) None None] = Inr (8 / 5) \<and>
   suma_tasa_o_cuota ''Cuota'' [Impuesto_init ''IVA'' ''Tasa'' (Some (8 / 5)) None None] = Inr 0 \<and>
   \<not> isl (Comprobante_init decimal_ejemplo (rounder_spec tabla_ejemplo) make_impuesto_spec
            make_impuestos_spec (args_ejemplo [concepto_tasa_alta])) \<and>
   map cc_ValorUnitario (cfdi_Conceptos (projr
     (Comprobante_init decimal_ejemplo (rounder_spec tabla_ejemplo) make_impuesto_spec
        make_impuestos_spec (args_ejemplo [concepto_tasa_alta])))) = [1 / 20] \<and>
   redondea 2 ((59 / 500 - 0) / (8 / 5 + 1)) = 1 / 20 \<and>
   precio_con_traslados (1 / 20) (8 / 5) 0 = 13 / 100 \<and>
   1 / 20 + redondea 2 (1 / 20 * (8 / 5)) + 0 = 13 / 100 \<and>
   \<bar>precio_con_traslados (1 / 20) (8 / 5) 0 - 59 / 500\<bar> = 3 / 250 \<and>
   (1 / 100 :: rat) < 3 / 250"
proof -
  have "\<exists>d. Comprobante_init decimal_ejemplo (rounder_spec tabla_ejemplo) make_impuesto_spec
            make_impuestos_spec (args_ejemplo [concepto_tasa_alta]) = Inr d \<and>
          map cc_ValorUnitario (cfdi_Conceptos d) = [1 / 20]"
    by (simp add: modelo_defs ejemplo_defs redondea_simps)
  then obtain d where
    "Comprobante_init decimal_ejemplo (rounder_spec tabla_ejemplo) make_impuesto_spec
            make_impuestos_spec (args_ejemplo [concepto_tasa_alta]) = Inr d"
    "map cc_ValorUnitario (cfdi_Conceptos d) = [1 / 20]"
    by (elim exE conjE)
  moreover have "redondea 2 ((59 / 500 - 0) / (8 / 5 + 1)) = 1 / 20"
    "1 / 20 + redondea 2 (1 / 20 * (8 / 5)) + 0 = 13 / 100"
    by (simp_all add: redondea_simps)
  moreover have "precio_con_traslados (1 / 20) (8 / 5) 0 = 13 / 100"
    by (simp add: precio_con_traslados_def)
  ultimately show ?thesis
    by (simp add: concepto_tasa_alta_def Impuesto_init_def impuestos_dict_def
        lleva_base_o_importe_def)
qed

text \<open>
  C5, as far as it holds. For a tax-inclusive concept that the loop accepts (so none of
  its transferred \<^verbatim>\<open>Tasa\<close> or \<^verbatim>\<open>Cuota\<close> records carries a base or an amount), the stored
  unit price is the rounded quotient \<^verbatim>\<open>(ValorUnitario - s_cuota) / (s_tasa + 1)\<close>. If that
  rounding is to the nearest multiple of the rounding unit \<open>u\<close>, the price with taxes
  recomputed from the stored unit price differs from the given inclusive price by at most
  \<open>\<bar>1 + s_tasa\<bar> / 2\<close> units, hence by at most one unit when the rates sum to at most 1 (and
  to no less than -3). Division is exact here.
\<close>

theorem precio_incluido_round_trip:
  assumes "procesa_concepto td mk rnd c = Inr k"
    and "traslados_incluidos c"
    and "traverse (as_impuesto td) (Traslados c) = Inr tras"
    and "suma_tasa_o_cuota ''Tasa'' tras = Inr s_tasa"
    and "suma_tasa_o_cuota ''Cuota'' tras = Inr s_cuota"
    and "\<bar>rnd ((ValorUnitario c - s_cuota) / (s_tasa + 1))
          - (ValorUnitario c - s_cuota) / (s_tasa + 1)\<bar> \<le> u / 2"
  shows "cc_ValorUnitario k = rnd ((ValorUnitario c - s_cuota) / (s_tasa + 1)) \<and>
         \<bar>precio_con_traslados (cc_ValorUnitario k) s_tasa s_cuota - ValorUnitario c\<bar>
           \<le> \<bar>1 + s_tasa\<bar> * (u / 2) \<and>
         (- 3 \<le> s_tasa \<and> s_tasa \<le> 1 \<longrightarrow>
            \<bar>precio_con_traslados (cc_ValorUnitario k) s_tasa s_cuota - ValorUnitario c\<bar> \<le> u)"
proof -
  let ?v = "(ValorUnitario c - s_cuota) / (s_tasa + 1)"
  from procesa_concepto_Inr[OF assms(1)] assms(2,3) obtain v where
    v: "valor_sin_traslados tras (ValorUnitario c) = Inr v" and k: "cc_ValorUnitario k = rnd v"
    by (auto simp: valor_unitario_local_def)
  from valor_sin_traslados_Inr[OF v] assms(4,5)
  have nz: "s_tasa + 1 \<noteq> 0" and ve: "v = ?v" by auto
  have k': "cc_ValorUnitario k = rnd ?v" using k ve by simp
  have d: "precio_con_traslados (rnd ?v) s_tasa s_cuota - ValorUnitario c = (rnd ?v - ?v) * (1 + s_tasa)"
    using precio_con_traslados_diff[OF nz] .
  have u0: "0 \<le> u / 2" using assms(6) by linarith
  have "\<bar>1 + s_tasa\<bar> * \<bar>rnd ?v - ?v\<bar> \<le> \<bar>1 + s_tasa\<bar> * (u / 2)"
    using assms(6) by (intro mult_left_mono) simp_all
  then have b: "\<bar>precio_con_traslados (rnd ?v) s_tasa s_cuota - ValorUnitario c\<bar> \<le> \<bar>1 + s_tasa\<bar> * (u / 2)"
    unfolding d abs_mult by (simp only: mult.commute)
  have "\<bar>precio_con_traslados (rnd ?v) s_tasa s_cuota - ValorUnitario c\<bar> \<le> u"
    if "- 3 \<le> s_tasa \<and> s_tasa \<le> 1"
  proof -
    have "\<bar>1 + s_tasa\<bar> \<le> 2" using that by linarith
    then have "\<bar>1 + s_tasa\<bar> * (u / 2) \<le> 2 * (u / 2)" using u0 by (rule mult_right_mono)
    with b show ?thesis by simp
  qed
  with b k' show ?thesis by simp
qed

text \<open>The amended C5 at the price 10.03 with 25 %: 8.02 * 1.25 = 10.025.\<close>

theorem precio_incluido_round_trip_witness:
  "procesa_concepto decimal_ejemplo make_impuesto_spec (redondea 2) concepto_precio_incluido =
     Inr \<lparr>cc_ClaveProdServ = ''50202306'', cc_Cantidad = 100,
          cc_ClaveUnidad = ''H87'', cc_Descripcion = ''Bebida'',
          cc_ValorUnitario = 401 / 50, cc_Importe = 4012 / 5,
          cc_ObjetoImp = Some ''02'', cc_Descuento = None,
          cc_Impuestos =
            Some \<lparr>ci_Traslados =
                    Some [\<lparr>Base = Some (4012 / 5), Impuesto = ''003'', TipoFactor = ''Tasa'',
                           TasaOCuota = Some (1 / 4), Importe = Some (1003 / 5)\<rparr>],
                  ci_Retenciones = None\<rparr>\<rparr> \<and>
   traslados_incluidos concepto_precio_incluido \<and>
   traverse (as_impuesto decimal_ejemplo) (Traslados concepto_precio_incluido) =
     Inr [Impuesto_init ''IEPS'' ''Tasa'' (Some (1 / 4)) None None] \<and>
   suma_tasa_o_cuota ''Tasa'' [Impuesto_init ''IEPS'' ''Tasa'' (Some (1 / 4)) None None] = Inr (1 / 4) \<and>
   suma_tasa_o_cuota ''Cuota'' [Impuesto_init ''IEPS'' ''Tasa'' (Some (1 / 4)) None None] = Inr 0 \<and>
   \<bar>redondea 2 ((ValorUnitario concepto_precio_incluido - 0) / (1 / 4 + 1))
      - (ValorUnitario concepto_precio_incluido - 0) / (1 / 4 + 1)\<bar> \<le> (1 / 100) / 2 \<and>
   - 3 \<le> (1 / 4 :: rat) \<and> (1 / 4 :: rat) \<le> 1 \<and>
   \<bar>precio_con_traslados (401 / 50) (1 / 4) 0 - 1003 / 100\<bar> \<le> 1 / 100"
proof -
  let ?k = "\<lparr>cc_ClaveProdServ = ''50202306'', cc_Cantidad = 100,
          cc_ClaveUnidad = ''H87'', cc_Descripcion = ''Bebida'',
          cc_ValorUnitario = 401 / 50, cc_Importe = 4012 / 5,
          cc_ObjetoImp = Some ''02'', cc_Descuento = None,
          cc_Impuestos =
            Some \<lparr>ci_Traslados =
                    Some [\<lparr>Base = Some (4012 / 5), Impuesto = ''003'', TipoFactor = ''Tasa'',
                           TasaOCuota = Some (1 / 4), Importe = Some (1003 / 5)\<rparr>],
                  ci_Retenciones = None\<rparr>\<rparr>"
  let ?t = "[Impuesto_init ''IEPS'' ''Tasa'' (Some (1 / 4)) None None]"
  have h1: "procesa_concepto decimal_ejemplo make_impuesto_spec (redondea 2) concepto_precio_incluido
            = Inr ?k"
    by (simp add: modelo_defs ejemplo_defs redondea_simps)
  have h2: "traslados_incluidos concepto_precio_incluido"
    and h3: "traverse (as_impuesto decimal_ejemplo) (Traslados concepto_precio_incluido) = Inr ?t"
    by (simp_all add: concepto_precio_incluido_def)
  have h4: "suma_tasa_o_cuota ''Tasa'' ?t = Inr (1 / 4)"
    and h5: "suma_tasa_o_cuota ''Cuota'' ?t = Inr 0"
    by (simp_all add: Impuesto_init_def)
  have h6: "\<bar>redondea 2 ((ValorUnitario concepto_precio_incluido - 0) / (1 / 4 + 1))
      - (ValorUnitario concepto_precio_incluido - 0) / (1 / 4 + 1)\<bar> \<le> (1 / 100) / 2"
    by (simp add: concepto_precio_incluido_def redondea_simps)
  have v: "ValorUnitario concepto_precio_incluido = 1003 / 100"
    by (simp add: concepto_precio_incluido_def)
  from precio_incluido_round_trip[OF h1 h2 h3 h4 h5 h6] h1 h2 h3 h4 h5 h6
  show ?thesis by (simp add: v)
qed

section \<open>Paying several documents at once\<close>







section \<open>Paying one document in part\<close>

lemma pago_Complemento:
  assumes "pago td rounder mk mk_imps em lugar rec cpago ser fol = Inr d"
  shows "cfdi_Complemento d = Some cpago"
  using Comprobante_init_fields(5)[OF assms[unfolded pago_def]] by simp

lemma make_impuestos_dr_parcial_Inr:
  assumes "make_impuestos_dr_parcial cs saldo pagado tot rnd = Inr dr"
  shows "tot \<noteq> 0"
    and "TrasladosDR dr = map (prorratea rnd pagado tot) (agrupa (traslados_de cs))"
    and "RetencionesDR dr = map (prorratea rnd pagado tot) (agrupa (retenciones_de cs))"
  using assms by (auto simp: make_impuestos_dr_parcial_def split: if_splits)

lemma pago_comprobante_Inr:
  assumes "pago_comprobante td rounder mk mk_imps cpago version em lugar c num saldo pagado
             fecha forma tc ser fol = Inr d"
    and "o_con_Impuestos c"
  shows "\<exists>rnd_fn dr.
           rounder (o_Moneda c) = Some rnd_fn \<and>
           make_impuestos_dr_parcial (o_Conceptos c) saldo pagado (o_Total c) rnd_fn = Inr dr \<and>
           cfdi_Complemento d =
             Some (cpago
                    [\<lparr>DoctoRelacionado =
                         [\<lparr>IdDocumento = o_UUID c,
                           dr_Serie = o_Serie c,
                           dr_Folio = o_Folio c,
                           MonedaDR = o_Moneda c,
                           EquivalenciaDR = 1,
                           MetodoDePagoDR = o_MetodoPago c,
                           NumParcialidad = num,
                           ImpSaldoAnt = saldo,
                           ImpPagado = pagado,
                           ObjetoImpDR = ''02'',
                           ImpuestosDR = Some dr\<rparr>],
                       FechaPago = fecha,
                       FormaDePagoP = forma,
                       MonedaP = o_Moneda c,
                       TipoCambioP = tipo_cambio_pago version (o_Moneda c) tc\<rparr>])"
proof (cases "rounder (o_Moneda c)")
  case None
  with assms show ?thesis by (simp add: pago_comprobante_def Let_def)
next
  case (Some rnd_fn)
  show ?thesis
  proof (cases "make_impuestos_dr_parcial (o_Conceptos c) saldo pagado (o_Total c) rnd_fn")
    case (Inl e)
    with assms Some show ?thesis by (simp add: pago_comprobante_def Let_def)
  next
    case (Inr dr)
    with assms Some have
      "pago td rounder mk mk_imps em lugar (o_Receptor c)
         (cpago
                    [\<lparr>DoctoRelacionado =
                         [\<lparr>IdDocumento = o_UUID c,
                           dr_Serie = o_Serie c,
                           dr_Folio = o_Folio c,
                           MonedaDR = o_Moneda c,
                           EquivalenciaDR = 1,
                           MetodoDePagoDR = o_MetodoPago c,
                           NumParcialidad = num,
                           ImpSaldoAnt = saldo,
                           ImpPagado = pagado,
                           ObjetoImpDR = ''02'',
                           ImpuestosDR = Some dr\<rparr>],
                       FechaPago = fecha,
                       FormaDePagoP = forma,
                       MonedaP = o_Moneda c,
                       TipoCambioP = tipo_cambio_pago version (o_Moneda c) tc\<rparr>]) ser fol = Inr d"
      by (simp add: pago_comprobante_def Let_def)
    from pago_Complemento[OF this] Some Inr show ?thesis by blast
  qed
qed

lemma prorratea_ImporteDR:
  "ImporteDR (prorratea rnd pagado tot g) =
     (if gr_TipoFactor g = ''Exento'' then None else Some (rnd (gr_Importe g * pagado / tot)))"
  by (simp add: prorratea_def)

lemma redondea_cerca: "\<bar>redondea n x - x\<bar> \<le> 1 / (2 * 10 ^ n)"
proof -
  define e :: rat where "e = of_int (round (x * 10 ^ n)) - x * 10 ^ n"
  have p: "(0::rat) < 10 ^ n" by simp
  have h: "\<bar>e\<bar> \<le> 1 / 2"
    unfolding e_def by (rule of_int_round_abs_le)
  have "\<bar>e\<bar> / 10 ^ n \<le> (1 / 2) / 10 ^ n"
    using h p by (rule divide_right_mono[OF _ less_imp_le])
  moreover have "redondea n x - x = e / 10 ^ n"
    by (simp add: redondea_def e_def diff_divide_distrib)
  then have "\<bar>redondea n x - x\<bar> = \<bar>e\<bar> / 10 ^ n"
    by (simp add: abs_divide)
  ultimately show ?thesis by simp
qed

lemma redondea_exacto: "redondea n (of_int k / 10 ^ n) = of_int k / 10 ^ n"
  by (simp add: redondea_def)

lemmas pago_defs =
  pago_comprobante_def pago_def make_impuestos_dr_parcial_def prorratea_def tipo_cambio_pago_def
  cfdi_origen_con_impuestos_def cfdi_origen_seis_decimales_def cfdi_origen_ejemplo_def

text \<open>
  C2 as stated fails where a group amount of the source document is no amount at the
  precision of its currency. A source document in MXN with total 220.42 whose one
  transferred tax has the amount 30.4032, paid in full: the related-document entry carries
  30.40, the rounding of the group amount, not the group amount.
\<close>

theorem pago_comprobante_prorrateo_counterexample:
  "o_con_Impuestos cfdi_origen_seis_decimales \<and>
   o_Total cfdi_origen_seis_decimales = 22042 / 100 \<and>
   rounder_spec tabla_ejemplo (o_Moneda cfdi_origen_seis_decimales) = Some (redondea 2) \<and>
   map gr_Importe (agrupa (traslados_de (o_Conceptos cfdi_origen_seis_decimales)))
     = [304032 / 10000] \<and>
   \<not> isl (pago_comprobante decimal_ejemplo (rounder_spec tabla_ejemplo) make_impuesto_spec
            make_impuestos_spec id ''2.0'' emisor_ejemplo ''56820'' cfdi_origen_seis_decimales
            1 (22042 / 100) (22042 / 100) ''2020-01-02T22:40:38'' ''03'' None None None) \<and>
   cfdi_Complemento (projr
     (pago_comprobante decimal_ejemplo (rounder_spec tabla_ejemplo) make_impuesto_spec
        make_impuestos_spec id ''2.0'' emisor_ejemplo ''56820'' cfdi_origen_seis_decimales
        1 (22042 / 100) (22042 / 100) ''2020-01-02T22:40:38'' ''03'' None None None)) =
     Some [\<lparr>DoctoRelacionado =
               [\<lparr>IdDocumento = ''6d7434a6'', dr_Serie = Some ''A'', dr_Folio = None,
                  MonedaDR = ''MXN'', EquivalenciaDR = 1, MetodoDePagoDR = ''PPD'',
                  NumParcialidad = 1, ImpSaldoAnt = 22042 / 100, ImpPagado = 22042 / 100,
                  ObjetoImpDR = ''02'',
                  ImpuestosDR =
                    Some \<lparr>RetencionesDR = [],
                          TrasladosDR =
                            [\<lparr>BaseDR = 19002 / 100, ImpuestoDR = ''002'',
                               TipoFactorDR = ''Tasa'', TasaOCuotaDR = Some (4 / 25),
                               ImporteDR = Some (3040 / 100)\<rparr>]\<rparr>\<rparr>],
            FechaPago = ''2020-01-02T22:40:38'', FormaDePagoP = ''03'', MonedaP = ''MXN'',
            TipoCambioP = Some 1\<rparr>] \<and>
   (3040 / 100 :: rat) \<noteq> 304032 / 10000"
proof -
  have "pago_comprobante decimal_ejemplo (rounder_spec tabla_ejemplo) make_impuesto_spec
        make_impuestos_spec id ''2.0'' emisor_ejemplo ''56820'' cfdi_origen_seis_decimales
        1 (22042 / 100) (22042 / 100) ''2020-01-02T22:40:38'' ''03'' None None None =
     Inr \<lparr>cfdi_Version = ''4.0'', cfdi_SubTotal = 0, cfdi_Moneda = ''XXX'',
        cfdi_Total = 0, cfdi_TipoDeComprobante = ''P'',
        cfdi_Exportacion = ''01'', cfdi_LugarExpedicion = ''56820'',
        cfdi_Serie = None, cfdi_Folio = None, cfdi_FormaPago = None,
        cfdi_Descuento = None, cfdi_MetodoPago = None,
        cfdi_Emisor =
          \<lparr>em_Rfc = ''H&E951128469'', em_Nombre = ''HERRERIA & ELECTRICOS'',
             em_RegimenFiscal = ''606''\<rparr>,
        cfdi_Receptor =
          \<lparr>re_Rfc = ''KIJ0906199R1'', re_Nombre = ''KIJ, S.A DE C.V.'',
             re_DomicilioFiscalReceptor = ''59820'',
             re_RegimenFiscalReceptor = Some ''601'',
             re_UsoCFDI = ''CP01''\<rparr>,
        cfdi_Conceptos =
          [\<lparr>cc_ClaveProdServ = ''84111506'', cc_Cantidad = 1,
              cc_ClaveUnidad = ''ACT'', cc_Descripcion = ''Pago'',
              cc_ValorUnitario = 0, cc_Importe = 0,
              cc_ObjetoImp = Some ''01'', cc_Descuento = None,
              cc_Impuestos = None\<rparr>],
        cfdi_Impuestos = None,
        cfdi_Complemento =
          Some [\<lparr>DoctoRelacionado =
               [\<lparr>IdDocumento = ''6d7434a6'', dr_Serie = Some ''A'', dr_Folio = None,
                  MonedaDR = ''MXN'', EquivalenciaDR = 1, MetodoDePagoDR = ''PPD'',
                  NumParcialidad = 1, ImpSaldoAnt = 22042 / 100, ImpPagado = 22042 / 100,
                  ObjetoImpDR = ''02'',
                  ImpuestosDR =
                    Some \<lparr>RetencionesDR = [],
                          TrasladosDR =
                            [\<lparr>BaseDR = 19002 / 100, ImpuestoDR = ''002'',
                               TipoFactorDR = ''Tasa'', TasaOCuotaDR = Some (4 / 25),
                               ImporteDR = Some (3040 / 100)\<rparr>]\<rparr>\<rparr>],
            FechaPago = ''2020-01-02T22:40:38'', FormaDePagoP = ''03'', MonedaP = ''MXN'',
            TipoCambioP = Some 1\<rparr>]\<rparr>"
    by (simp add: pago_defs modelo_defs ejemplo_defs redondea_simps)
  moreover have "map gr_Importe (agrupa (traslados_de (o_Conceptos cfdi_origen_seis_decimales)))
     = [304032 / 10000]"
    by (simp add: cfdi_origen_seis_decimales_def cfdi_origen_ejemplo_def agrupa_def
        traslados_de_def or_zero_def)
  moreover have "rounder_spec tabla_ejemplo (o_Moneda cfdi_origen_seis_decimales) = Some (redondea 2)"
    by (simp add: cfdi_origen_seis_decimales_def cfdi_origen_ejemplo_def rounder_spec_def
        tabla_ejemplo_def)
  ultimately show ?thesis
    by (simp add: cfdi_origen_seis_decimales_def cfdi_origen_ejemplo_def)
qed

text \<open>
  C2, as far as it holds. For every payment document that \<^verbatim>\<open>pago_comprobante\<close> builds
  against a source document that carries taxes, with the \<^verbatim>\<open>rounder\<close> of the specification
  over a currency table, the tax part of the related-document entry is the proration of
  the source document's concepts at the precision \<open>n\<close> of the source document's currency
  and against its \<^verbatim>\<open>Total\<close>: every group of transferred or withheld taxes contributes
  \<^verbatim>\<open>round(group_amount * ImpPagado / Total)\<close>, an exempt group no amount. An amount paid
  equal to the total yields the rounding of the group amount, which is the group amount
  itself when that is an amount with \<open>n\<close> decimals. An amount paid of half the total yields
  the rounding of half the group amount, at most half a rounding unit away from it. The
  proration itself is the one of the specification.
\<close>

theorem pago_comprobante_prorrateo:
  assumes "pago_comprobante td (rounder_spec tabla) mk mk_imps cpago version em lugar c num saldo
             pagado fecha forma tc ser fol = Inr d"
    and "o_con_Impuestos c"
  shows "\<exists>n dr.
           tabla (o_Moneda c) = Some n \<and>
           o_Total c \<noteq> 0 \<and>
           cfdi_Complemento d =
             Some (cpago
                    [\<lparr>DoctoRelacionado =
                         [\<lparr>IdDocumento = o_UUID c,
                           dr_Serie = o_Serie c,
                           dr_Folio = o_Folio c,
                           MonedaDR = o_Moneda c,
                           EquivalenciaDR = 1,
                           MetodoDePagoDR = o_MetodoPago c,
                           NumParcialidad = num,
                           ImpSaldoAnt = saldo,
                           ImpPagado = pagado,
                           ObjetoImpDR = ''02'',
                           ImpuestosDR = Some dr\<rparr>],
                       FechaPago = fecha,
                       FormaDePagoP = forma,
                       MonedaP = o_Moneda c,
                       TipoCambioP = tipo_cambio_pago version (o_Moneda c) tc\<rparr>]) \<and>
           TrasladosDR dr =
             map (prorratea (redondea n) pagado (o_Total c))
               (agrupa (traslados_de (o_Conceptos c))) \<and>
           RetencionesDR dr =
             map (prorratea (redondea n) pagado (o_Total c))
               (agrupa (retenciones_de (o_Conceptos c))) \<and>
           (\<forall>g. ImporteDR (prorratea (redondea n) pagado (o_Total c) g) =
                  (if gr_TipoFactor g = ''Exento'' then None
                   else Some (redondea n (gr_Importe g * pagado / o_Total c)))) \<and>
           (\<forall>g. pagado = o_Total c \<longrightarrow>
                  ImporteDR (prorratea (redondea n) pagado (o_Total c) g) =
                    (if gr_TipoFactor g = ''Exento'' then None
                     else Some (redondea n (gr_Importe g)))) \<and>
           (\<forall>g k. pagado = o_Total c \<and> gr_Importe g = of_int k / 10 ^ n \<longrightarrow>
                  ImporteDR (prorratea (redondea n) pagado (o_Total c) g) =
                    (if gr_TipoFactor g = ''Exento'' then None else Some (gr_Importe g))) \<and>
           (\<forall>g. pagado = o_Total c / 2 \<and> gr_TipoFactor g \<noteq> ''Exento'' \<longrightarrow>
                  (\<exists>y. ImporteDR (prorratea (redondea n) pagado (o_Total c) g) = Some y \<and>
                       y = redondea n (gr_Importe g / 2) \<and>
                       \<bar>y - gr_Importe g / 2\<bar> \<le> 1 / (2 * 10 ^ n)))"
proof -
  from pago_comprobante_Inr[OF assms] obtain rnd_fn dr where
    r: "rounder_spec tabla (o_Moneda c) = Some rnd_fn" and
    m: "make_impuestos_dr_parcial (o_Conceptos c) saldo pagado (o_Total c) rnd_fn = Inr dr" and
    k: "cfdi_Complemento d =
             Some (cpago
                    [\<lparr>DoctoRelacionado =
                         [\<lparr>IdDocumento = o_UUID c,
                           dr_Serie = o_Serie c,
                           dr_Folio = o_Folio c,
                           MonedaDR = o_Moneda c,
                           EquivalenciaDR = 1,
                           MetodoDePagoDR = o_MetodoPago c,
                           NumParcialidad = num,
                           ImpSaldoAnt = saldo,
                           ImpPagado = pagado,
                           ObjetoImpDR = ''02'',
                           ImpuestosDR = Some dr\<rparr>],
                       FechaPago = fecha,
                       FormaDePagoP = forma,
                       MonedaP = o_Moneda c,
                       TipoCambioP = tipo_cambio_pago version (o_Moneda c) tc\<rparr>])"
    by (elim exE conjE)
  from r obtain n where n: "tabla (o_Moneda c) = Some n" and rn: "rnd_fn = redondea n"
    by (auto simp: rounder_spec_def)
  note p = make_impuestos_dr_parcial_Inr[OF m[unfolded rn]]
  have same: "x * o_Total c / o_Total c = x" for x
    using p(1) by simp
  have half: "x * (o_Total c / 2) / o_Total c = x / 2" for x
    using p(1) by (simp add: field_simps)
  have a: "\<forall>g. ImporteDR (prorratea (redondea n) pagado (o_Total c) g) =
                  (if gr_TipoFactor g = ''Exento'' then None
                   else Some (redondea n (gr_Importe g * pagado / o_Total c)))"
    by (simp add: prorratea_ImporteDR)
  have b: "\<forall>g. pagado = o_Total c \<longrightarrow>
                  ImporteDR (prorratea (redondea n) pagado (o_Total c) g) =
                    (if gr_TipoFactor g = ''Exento'' then None
                     else Some (redondea n (gr_Importe g)))"
    by (simp add: prorratea_ImporteDR same)
  have b': "\<forall>g k. pagado = o_Total c \<and> gr_Importe g = of_int k / 10 ^ n \<longrightarrow>
                  ImporteDR (prorratea (redondea n) pagado (o_Total c) g) =
                    (if gr_TipoFactor g = ''Exento'' then None else Some (gr_Importe g))"
  proof (intro allI impI)
    fix g :: grupo and k :: int
    assume h: "pagado = o_Total c \<and> gr_Importe g = of_int k / 10 ^ n"
    then have "redondea n (gr_Importe g) = gr_Importe g"
      using redondea_exacto[of n k] by simp
    with h b show "ImporteDR (prorratea (redondea n) pagado (o_Total c) g) =
                    (if gr_TipoFactor g = ''Exento'' then None else Some (gr_Importe g))"
      by simp
  qed
  have e: "\<forall>g. pagado = o_Total c / 2 \<and> gr_TipoFactor g \<noteq> ''Exento'' \<longrightarrow>
                  (\<exists>y. ImporteDR (prorratea (redondea n) pagado (o_Total c) g) = Some y \<and>
                       y = redondea n (gr_Importe g / 2) \<and>
                       \<bar>y - gr_Importe g / 2\<bar> \<le> 1 / (2 * 10 ^ n))"
  proof (intro allI impI)
    fix g :: grupo
    assume h: "pagado = o_Total c / 2 \<and> gr_TipoFactor g \<noteq> ''Exento''"
    then have pg: "pagado = o_Total c / 2" and ne: "gr_TipoFactor g \<noteq> ''Exento''"
      by blast+
    have "ImporteDR (prorratea (redondea n) pagado (o_Total c) g)
                 = Some (redondea n (gr_Importe g / 2))"
      using ne unfolding pg by (simp only: prorratea_ImporteDR half if_False)
    then show "\<exists>y. ImporteDR (prorratea (redondea n) pagado (o_Total c) g) = Some y \<and>
                       y = redondea n (gr_Importe g / 2) \<and>
                       \<bar>y - gr_Importe g / 2\<bar> \<le> 1 / (2 * 10 ^ n)"
      using redondea_cerca[of n "gr_Importe g / 2"] by blast
  qed
  from n p k a b b' e show ?thesis
    by (intro exI[of _ n] exI[of _ dr] conjI) assumption+
qed

text \<open>
  The amended C2 at the source document with total 251.40, paid in full and paid by half:
  the groups 30.40 and 19.00 are reproduced, respectively halved to 15.20 and 9.50.
\<close>

theorem pago_comprobante_prorrateo_witness:
  "o_con_Impuestos cfdi_origen_con_impuestos \<and>
   o_Total cfdi_origen_con_impuestos = 1257 / 5 \<and>
   (1257 / 10 :: rat) = 1257 / 5 / 2 \<and>
   tabla_ejemplo (o_Moneda cfdi_origen_con_impuestos) = Some 2 \<and>
   map gr_Importe (agrupa (traslados_de (o_Conceptos cfdi_origen_con_impuestos))) = [152 / 5] \<and>
   map gr_Importe (agrupa (retenciones_de (o_Conceptos cfdi_origen_con_impuestos))) = [19] \<and>
   map gr_TipoFactor (agrupa (traslados_de (o_Conceptos cfdi_origen_con_impuestos))
                      @ agrupa (retenciones_de (o_Conceptos cfdi_origen_con_impuestos)))
     = [''Tasa'', ''Tasa''] \<and>
   (152 / 5 :: rat) = of_int 3040 / 10 ^ 2 \<and> (19 :: rat) = of_int 1900 / 10 ^ 2 \<and>
   (\<exists>d dr. pago_comprobante decimal_ejemplo (rounder_spec tabla_ejemplo) make_impuesto_spec
              make_impuestos_spec (\<lambda>ps. ps) ''2.0'' emisor_ejemplo ''56820''
              cfdi_origen_con_impuestos 1 (1257 / 5) (1257 / 5) ''2020-01-02T22:40:38'' ''03''
              None None None = Inr d \<and>
           map (map ImpuestosDR \<circ> DoctoRelacionado) (the (cfdi_Complemento d)) = [[Some dr]] \<and>
           map ImporteDR (TrasladosDR dr) = [Some (152 / 5)] \<and>
           map ImporteDR (RetencionesDR dr) = [Some 19]) \<and>
   (\<exists>d dr. pago_comprobante decimal_ejemplo (rounder_spec tabla_ejemplo) make_impuesto_spec
              make_impuestos_spec (\<lambda>ps. ps) ''2.0'' emisor_ejemplo ''56820''
              cfdi_origen_con_impuestos 1 (1257 / 5) (1257 / 10) ''2020-01-02T22:40:38'' ''03''
              None None None = Inr d \<and>
           map (map ImpuestosDR \<circ> DoctoRelacionado) (the (cfdi_Complemento d)) = [[Some dr]] \<and>
           map ImporteDR (TrasladosDR dr) = [Some (76 / 5)] \<and>
           map ImporteDR (RetencionesDR dr) = [Some (19 / 2)] \<and>
           \<bar>76 / 5 - 152 / 5 / 2\<bar> \<le> (1 / (2 * 10 ^ 2) :: rat) \<and>
           \<bar>19 / 2 - 19 / 2\<bar> \<le> (1 / (2 * 10 ^ 2) :: rat))"
proof -
  let ?c = cfdi_origen_con_impuestos
  have o: "o_con_Impuestos ?c" and t: "o_Total ?c = 1257 / 5"
    and m: "tabla_ejemplo (o_Moneda ?c) = Some 2"
    by (simp_all add: cfdi_origen_con_impuestos_def cfdi_origen_ejemplo_def tabla_ejemplo_def)
  have g: "agrupa (traslados_de (o_Conceptos ?c)) =
             [\<lparr>gr_Impuesto = ''002'', gr_TipoFactor = ''Tasa'', gr_TasaOCuota = Some (4 / 25),
               gr_Base = 190, gr_Importe = 152 / 5\<rparr>]"
    "agrupa (retenciones_de (o_Conceptos ?c)) =
             [\<lparr>gr_Impuesto = ''001'', gr_TipoFactor = ''Tasa'', gr_TasaOCuota = Some (1 / 10),
               gr_Base = 190, gr_Importe = 19\<rparr>]"
    by (simp_all add: cfdi_origen_con_impuestos_def cfdi_origen_ejemplo_def agrupa_def
        traslados_de_def retenciones_de_def or_zero_def)
  have "\<exists>d. pago_comprobante decimal_ejemplo (rounder_spec tabla_ejemplo) make_impuesto_spec
              make_impuestos_spec (\<lambda>ps. ps) ''2.0'' emisor_ejemplo ''56820''
              ?c 1 (1257 / 5) (1257 / 5) ''2020-01-02T22:40:38'' ''03''
              None None None = Inr d"
    by (simp add: pago_defs modelo_defs ejemplo_defs redondea_simps)
  then obtain d1 where
    h1: "pago_comprobante decimal_ejemplo (rounder_spec tabla_ejemplo) make_impuesto_spec
              make_impuestos_spec (\<lambda>ps. ps) ''2.0'' emisor_ejemplo ''56820''
              ?c 1 (1257 / 5) (1257 / 5) ''2020-01-02T22:40:38'' ''03''
              None None None = Inr d1"
    by (elim exE)
  have "\<exists>d. pago_comprobante decimal_ejemplo (rounder_spec tabla_ejemplo) make_impuesto_spec
              make_impuestos_spec (\<lambda>ps. ps) ''2.0'' emisor_ejemplo ''56820''
              ?c 1 (1257 / 5) (1257 / 10) ''2020-01-02T22:40:38'' ''03''
              None None None = Inr d"
    by (simp add: pago_defs modelo_defs ejemplo_defs redondea_simps)
  then obtain d2 where
    h2: "pago_comprobante decimal_ejemplo (rounder_spec tabla_ejemplo) make_impuesto_spec
              make_impuestos_spec (\<lambda>ps. ps) ''2.0'' emisor_ejemplo ''56820''
              ?c 1 (1257 / 5) (1257 / 10) ''2020-01-02T22:40:38'' ''03''
              None None None = Inr d2"
    by (elim exE)
  from pago_comprobante_prorrateo[OF h1 o] obtain n1 dr1 where
    a1: "tabla_ejemplo (o_Moneda ?c) = Some n1"
    and k1: "map (map ImpuestosDR \<circ> DoctoRelacionado) (the (cfdi_Complemento d1)) = [[Some dr1]]"
    and x1: "TrasladosDR dr1 =
             map (prorratea (redondea n1) (1257 / 5) (o_Total ?c))
               (agrupa (traslados_de (o_Conceptos ?c)))"
    and y1: "RetencionesDR dr1 =
             map (prorratea (redondea n1) (1257 / 5) (o_Total ?c))
               (agrupa (retenciones_de (o_Conceptos ?c)))"
    and f1: "\<forall>g k. 1257 / 5 = o_Total ?c \<and> gr_Importe g = of_int k / 10 ^ n1 \<longrightarrow>
                  ImporteDR (prorratea (redondea n1) (1257 / 5) (o_Total ?c) g) =
                    (if gr_TipoFactor g = ''Exento'' then None else Some (gr_Importe g))"
    by (elim exE conjE) simp
  from pago_comprobante_prorrateo[OF h2 o] obtain n2 dr2 where
    a2: "tabla_ejemplo (o_Moneda ?c) = Some n2"
    and k2: "map (map ImpuestosDR \<circ> DoctoRelacionado) (the (cfdi_Complemento d2)) = [[Some dr2]]"
    and x2: "TrasladosDR dr2 =
             map (prorratea (redondea n2) (1257 / 10) (o_Total ?c))
               (agrupa (traslados_de (o_Conceptos ?c)))"
    and y2: "RetencionesDR dr2 =
             map (prorratea (redondea n2) (1257 / 10) (o_Total ?c))
               (agrupa (retenciones_de (o_Conceptos ?c)))"
    by (elim exE conjE) simp
  have n: "n1 = 2" "n2 = 2" using a1 a2 m by simp_all
  have i: "(152 / 5 :: rat) = of_int 3040 / 10 ^ 2" "(19 :: rat) = of_int 1900 / 10 ^ 2"
    "(1257 / 10 :: rat) = 1257 / 5 / 2"
    by simp_all
  have v1: "map ImporteDR (TrasladosDR dr1) = [Some (152 / 5)]"
    "map ImporteDR (RetencionesDR dr1) = [Some 19]"
    using f1[rule_format, of "\<lparr>gr_Impuesto = ''002'', gr_TipoFactor = ''Tasa'',
               gr_TasaOCuota = Some (4 / 25), gr_Base = 190, gr_Importe = 152 / 5\<rparr>" 3040]
          f1[rule_format, of "\<lparr>gr_Impuesto = ''001'', gr_TipoFactor = ''Tasa'',
               gr_TasaOCuota = Some (1 / 10), gr_Base = 190, gr_Importe = 19\<rparr>" 1900]
    by (simp_all add: x1 y1 n t g)
  have v2: "map ImporteDR (TrasladosDR dr2) = [Some (76 / 5)]"
    "map ImporteDR (RetencionesDR dr2) = [Some (19 / 2)]"
    by (simp_all add: x2 y2 n t g prorratea_def redondea_simps)
  have w: "map gr_Importe (agrupa (traslados_de (o_Conceptos ?c))) = [152 / 5]"
    "map gr_Importe (agrupa (retenciones_de (o_Conceptos ?c))) = [19]"
    "map gr_TipoFactor (agrupa (traslados_de (o_Conceptos ?c))
                      @ agrupa (retenciones_de (o_Conceptos ?c))) = [''Tasa'', ''Tasa'']"
    by (simp_all add: g)
  have q: "\<bar>76 / 5 - 152 / 5 / 2\<bar> \<le> (1 / (2 * 10 ^ 2) :: rat)"
    "\<bar>19 / 2 - 19 / 2\<bar> \<le> (1 / (2 * 10 ^ 2) :: rat)"
    by simp_all
  from o t i m w h1 k1 v1 h2 k2 v2 q show ?thesis
    by (intro conjI exI[of _ d1] exI[of _ dr1] exI[of _ d2] exI[of _ dr2]) assumption+
qed

end
